theory Spec2Isabelle
  imports Complex_Main
begin

section \<open>Kinematics engine of the 7-axis robot arm\<close>

text \<open>
  The engine is the group of pure helper functions at the top of the control module:
  \<^verbatim>\<open>getBoneOffsets\<close>, \<^verbatim>\<open>computeFK\<close>, \<^verbatim>\<open>distSegmentToSegment\<close>,
  \<^verbatim>\<open>checkSelfCollision\<close>, \<^verbatim>\<open>solveIK\<close> and the workspace generator
  \<^verbatim>\<open>generateWorkspace\<close>.  JavaScript numbers are modelled as the real numbers:
  rounding, overflow and NaN of IEEE doubles are outside the model, and \<^verbatim>\<open>Math.PI\<close>
  is \<open>pi\<close>.  Arrays are lists; the theorems fix their lengths where the source relies
  on them.
\<close>

subsection \<open>Vectors and matrices of the 3D library\<close>

text \<open>
  \<^verbatim>\<open>Vector3\<close> and \<^verbatim>\<open>Matrix4\<close> come from the 3D library the module imports.  Only
  the methods the engine calls are given, each with the meaning the library documents.
  A \<^verbatim>\<open>Matrix4\<close> is written row by row, in the argument order of the library's
  \<^verbatim>\<open>set\<close>.
\<close>

datatype vec3 = Vector3 (vx: real) (vy: real) (vz: real)

datatype mat4 = Matrix4
  (n11: real) (n12: real) (n13: real) (n14: real)
  (n21: real) (n22: real) (n23: real) (n24: real)
  (n31: real) (n32: real) (n33: real) (n34: real)
  (n41: real) (n42: real) (n43: real) (n44: real)

definition subVectors :: "vec3 \<Rightarrow> vec3 \<Rightarrow> vec3" where
  "subVectors a b = Vector3 (vx a - vx b) (vy a - vy b) (vz a - vz b)"

definition addVectors :: "vec3 \<Rightarrow> vec3 \<Rightarrow> vec3" where
  "addVectors a b = Vector3 (vx a + vx b) (vy a + vy b) (vz a + vz b)"

definition multiplyScalar :: "vec3 \<Rightarrow> real \<Rightarrow> vec3" where
  "multiplyScalar v s = Vector3 (vx v * s) (vy v * s) (vz v * s)"

definition dot :: "vec3 \<Rightarrow> vec3 \<Rightarrow> real" where
  "dot a b = vx a * vx b + vy a * vy b + vz a * vz b"

definition crossVectors :: "vec3 \<Rightarrow> vec3 \<Rightarrow> vec3" where
  "crossVectors a b =
     Vector3 (vy a * vz b - vz a * vy b) (vz a * vx b - vx a * vz b) (vx a * vy b - vy a * vx b)"

definition vlength :: "vec3 \<Rightarrow> real" where
  "vlength v = sqrt (vx v * vx v + vy v * vy v + vz v * vz v)"

definition distanceTo :: "vec3 \<Rightarrow> vec3 \<Rightarrow> real" where
  "distanceTo a b = sqrt ((vx a - vx b) * (vx a - vx b) + (vy a - vy b) * (vy a - vy b)
                          + (vz a - vz b) * (vz a - vz b))"

text \<open>\<^verbatim>\<open>normalize\<close> divides by the length, or by 1 when the length is 0.\<close>

definition normalize :: "vec3 \<Rightarrow> vec3" where
  "normalize v = multiplyScalar v (1 / (if vlength v = 0 then 1 else vlength v))"

definition identity4 :: mat4 where
  "identity4 = Matrix4 1 0 0 0  0 1 0 0  0 0 1 0  0 0 0 1"

definition makeTranslation :: "real \<Rightarrow> real \<Rightarrow> real \<Rightarrow> mat4" where
  "makeTranslation tx ty tz = Matrix4 1 0 0 tx  0 1 0 ty  0 0 1 tz  0 0 0 1"

definition makeRotationX :: "real \<Rightarrow> mat4" where
  "makeRotationX theta =
     Matrix4 1 0 0 0  0 (cos theta) (- sin theta) 0  0 (sin theta) (cos theta) 0  0 0 0 1"

definition makeRotationY :: "real \<Rightarrow> mat4" where
  "makeRotationY theta =
     Matrix4 (cos theta) 0 (sin theta) 0  0 1 0 0  (- sin theta) 0 (cos theta) 0  0 0 0 1"

definition makeRotationZ :: "real \<Rightarrow> mat4" where
  "makeRotationZ theta =
     Matrix4 (cos theta) (- sin theta) 0 0  (sin theta) (cos theta) 0 0  0 0 1 0  0 0 0 1"

text \<open>\<^verbatim>\<open>a.multiply(b)\<close> replaces \<open>a\<close> by the matrix product \<open>a \<times> b\<close>.\<close>

definition multiply :: "mat4 \<Rightarrow> mat4 \<Rightarrow> mat4" where
  "multiply a b = Matrix4
     (n11 a * n11 b + n12 a * n21 b + n13 a * n31 b + n14 a * n41 b)
     (n11 a * n12 b + n12 a * n22 b + n13 a * n32 b + n14 a * n42 b)
     (n11 a * n13 b + n12 a * n23 b + n13 a * n33 b + n14 a * n43 b)
     (n11 a * n14 b + n12 a * n24 b + n13 a * n34 b + n14 a * n44 b)
     (n21 a * n11 b + n22 a * n21 b + n23 a * n31 b + n24 a * n41 b)
     (n21 a * n12 b + n22 a * n22 b + n23 a * n32 b + n24 a * n42 b)
     (n21 a * n13 b + n22 a * n23 b + n23 a * n33 b + n24 a * n43 b)
     (n21 a * n14 b + n22 a * n24 b + n23 a * n34 b + n24 a * n44 b)
     (n31 a * n11 b + n32 a * n21 b + n33 a * n31 b + n34 a * n41 b)
     (n31 a * n12 b + n32 a * n22 b + n33 a * n32 b + n34 a * n42 b)
     (n31 a * n13 b + n32 a * n23 b + n33 a * n33 b + n34 a * n43 b)
     (n31 a * n14 b + n32 a * n24 b + n33 a * n34 b + n34 a * n44 b)
     (n41 a * n11 b + n42 a * n21 b + n43 a * n31 b + n44 a * n41 b)
     (n41 a * n12 b + n42 a * n22 b + n43 a * n32 b + n44 a * n42 b)
     (n41 a * n13 b + n42 a * n23 b + n43 a * n33 b + n44 a * n43 b)
     (n41 a * n14 b + n42 a * n24 b + n43 a * n34 b + n44 a * n44 b)"

text \<open>\<^verbatim>\<open>setFromMatrixPosition\<close> reads the translation column.\<close>

definition setFromMatrixPosition :: "mat4 \<Rightarrow> vec3" where
  "setFromMatrixPosition m = Vector3 (n14 m) (n24 m) (n34 m)"

text \<open>
  \<^verbatim>\<open>transformDirection\<close> applies the upper left 3 by 3 block and normalizes the result.
\<close>

definition transformDirection :: "vec3 \<Rightarrow> mat4 \<Rightarrow> vec3" where
  "transformDirection v m = normalize (Vector3
     (n11 m * vx v + n12 m * vy v + n13 m * vz v)
     (n21 m * vx v + n22 m * vy v + n23 m * vz v)
     (n31 m * vx v + n32 m * vy v + n33 m * vz v))"

subsection \<open>Configuration: constants, joints and dimensions\<close>

definition COLLISION_WARNING_THRESHOLD :: real where
  "COLLISION_WARNING_THRESHOLD = 0.15"

definition FLOOR_LIMIT :: real where
  "FLOOR_LIMIT = 0.0"

datatype axis_name = AxisX | AxisY | AxisZ

text \<open>
  The fields \<^verbatim>\<open>id\<close>, \<^verbatim>\<open>name\<close>, \<^verbatim>\<open>min\<close>, \<^verbatim>\<open>max\<close> and \<^verbatim>\<open>axis\<close> of
  \<^verbatim>\<open>JointConfig\<close> carry the prefix \<open>j\<close> here.
\<close>

record JointConfig =
  jid :: nat
  jname :: string
  jmin :: real
  jmax :: real
  jaxis :: axis_name
  defaultValue :: real
  speed :: real

record RobotDimensions =
  baseHeight :: real
  j1j2 :: real
  j2j3 :: real
  j3j4 :: real
  j4j5 :: real
  j5j6 :: real
  j6j7 :: real
  j7tip :: real

definition DEFAULT_JOINTS :: "JointConfig list" where
  "DEFAULT_JOINTS =
    [\<lparr>jid = 0, jname = ''J1: Base Yaw'', jmin = - pi, jmax = pi, jaxis = AxisY,
       defaultValue = 0, speed = 0.02\<rparr>,
     \<lparr>jid = 1, jname = ''J2: Shoulder Pitch'', jmin = - pi / 2, jmax = pi / 2, jaxis = AxisX,
       defaultValue = 0, speed = 0.02\<rparr>,
     \<lparr>jid = 2, jname = ''J3: Arm Yaw 1'', jmin = - pi / 1.5, jmax = pi / 1.5, jaxis = AxisY,
       defaultValue = 0, speed = 0.03\<rparr>,
     \<lparr>jid = 3, jname = ''J4: Arm Yaw 2'', jmin = - pi / 1.5, jmax = pi / 1.5, jaxis = AxisY,
       defaultValue = 0, speed = 0.03\<rparr>,
     \<lparr>jid = 4, jname = ''J5: Arm Yaw 3'', jmin = - pi / 1.5, jmax = pi / 1.5, jaxis = AxisY,
       defaultValue = 0, speed = 0.03\<rparr>,
     \<lparr>jid = 5, jname = ''J6: Wrist Pitch'', jmin = - pi / 1.2, jmax = pi / 1.2, jaxis = AxisX,
       defaultValue = pi / 4, speed = 0.04\<rparr>,
     \<lparr>jid = 6, jname = ''J7: Wrist Roll'', jmin = - pi * 2, jmax = pi * 2, jaxis = AxisZ,
       defaultValue = 0, speed = 0.05\<rparr>]"

definition DEFAULT_DIMENSIONS :: RobotDimensions where
  "DEFAULT_DIMENSIONS =
    \<lparr>baseHeight = 0.2, j1j2 = 0.3, j2j3 = 0.8, j3j4 = 0.6, j4j5 = 0.6, j5j6 = 0.5,
     j6j7 = 0.3, j7tip = 0.2\<rparr>"

text \<open>Axes of rotation of the seven joints, in local space.\<close>

definition JOINT_AXES :: "vec3 list" where
  "JOINT_AXES =
    [Vector3 0 1 0, Vector3 1 0 0, Vector3 0 1 0, Vector3 0 1 0, Vector3 0 1 0,
     Vector3 1 0 0, Vector3 0 0 1]"

definition getBoneOffsets :: "RobotDimensions \<Rightarrow> vec3 list" where
  "getBoneOffsets dims =
    [Vector3 0 (baseHeight dims) 0,
     Vector3 0 (j1j2 dims) 0,
     Vector3 0 0 (j2j3 dims),
     Vector3 0 0 (j3j4 dims),
     Vector3 0 0 (j4j5 dims),
     Vector3 0 0 (j5j6 dims),
     Vector3 0 0 (j6j7 dims),
     Vector3 0 0 (j7tip dims)]"

subsection \<open>Forward kinematics\<close>

text \<open>
  One round of the loop of \<^verbatim>\<open>computeFK\<close>: rotate about the joint's axis, translate
  by the next bone offset, push the position.
\<close>

definition fkJoint :: "real list \<Rightarrow> vec3 list \<Rightarrow> nat \<Rightarrow> mat4 \<times> vec3 list \<Rightarrow> mat4 \<times> vec3 list" where
  "fkJoint angles boneOffsets i st =
    (let currentMatrix = fst st;
         jointPositions = snd st;
         rotationMatrix =
           (if vx (JOINT_AXES ! i) = 1 then makeRotationX (angles ! i)
            else if vy (JOINT_AXES ! i) = 1 then makeRotationY (angles ! i)
            else makeRotationZ (angles ! i));
         currentMatrix = multiply currentMatrix rotationMatrix;
         offset = boneOffsets ! (i + 1);
         currentMatrix = multiply currentMatrix
                           (makeTranslation (vx offset) (vy offset) (vz offset))
     in (currentMatrix, jointPositions @ [setFromMatrixPosition currentMatrix]))"

function fkLoop :: "real list \<Rightarrow> vec3 list \<Rightarrow> nat \<Rightarrow> mat4 \<times> vec3 list \<Rightarrow> mat4 \<times> vec3 list" where
  "fkLoop angles boneOffsets i st =
    (if i < 7 then fkLoop angles boneOffsets (i + 1) (fkJoint angles boneOffsets i st)
     else st)"
  by pat_completeness auto
termination
  by (relation "measure (\<lambda>(angles, boneOffsets, i, st). 7 - i)") auto

definition computeFK :: "real list \<Rightarrow> RobotDimensions \<Rightarrow> vec3 list" where
  "computeFK angles dims =
    (let boneOffsets = getBoneOffsets dims;
         currentMatrix = multiply identity4
           (makeTranslation (vx (boneOffsets ! 0)) (vy (boneOffsets ! 0)) (vz (boneOffsets ! 0)));
         jointPositions = [setFromMatrixPosition currentMatrix]
     in snd (fkLoop angles boneOffsets 0 (currentMatrix, jointPositions)))"

subsection \<open>Distance between two segments\<close>

text \<open>
  The numerators and denominators \<open>(sN, sD, tN, tD)\<close> of the two interpolation
  parameters, as \<^verbatim>\<open>distSegmentToSegment\<close> holds them when it reaches the two quotients.
  The arguments are the five dot products \<open>a\<close> to \<open>e\<close>; \<open>D\<close> is computed from them.
\<close>

definition segParams :: "real \<Rightarrow> real \<Rightarrow> real \<Rightarrow> real \<Rightarrow> real \<Rightarrow> real \<times> real \<times> real \<times> real" where
  "segParams a b c d e =
    (let D = a * c - b * b;
         (sN, sD, tN, tD) =
           (if D < 0.000001 then (0, 1, e, c)
            else (let sN = b * e - c * d; tN = a * e - b * d
                  in if sN < 0 then (0, D, e, c)
                     else if sN > D then (D, D, e + b, c)
                     else (sN, D, tN, D)))
     in if tN < 0 then
          (if - d < 0 then (0, sD, 0, tD)
           else if - d > a then (sD, sD, 0, tD)
           else (- d, a, 0, tD))
        else if tN > tD then
          (if - d + b < 0 then (0, sD, tD, tD)
           else if - d + b > a then (sD, sD, tD, tD)
           else (- d + b, a, tD, tD))
        else (sN, sD, tN, tD))"

definition distSegmentToSegment :: "vec3 \<Rightarrow> vec3 \<Rightarrow> vec3 \<Rightarrow> vec3 \<Rightarrow> real" where
  "distSegmentToSegment p1 q1 p2 q2 =
    (let u = subVectors q1 p1;
         v = subVectors q2 p2;
         w = subVectors p1 p2;
         a = dot u u;
         b = dot u v;
         c = dot v v;
         d = dot u w;
         e = dot v w;
         (sN, sD, tN, tD) = segParams a b c d e;
         sc = (if \<bar>sN\<bar> < 0.000001 then 0 else sN / sD);
         tc = (if \<bar>tN\<bar> < 0.000001 then 0 else tN / tD);
         dP = subVectors (addVectors w (multiplyScalar u sc)) (multiplyScalar v tc)
     in vlength dP)"

subsection \<open>Collision check\<close>

text \<open>The first loop of \<^verbatim>\<open>checkSelfCollision\<close>: the floor check over all positions.\<close>

fun floorLoop :: "vec3 list \<Rightarrow> bool" where
  "floorLoop [] = False"
| "floorLoop (p # ps) = (if vy p < FLOOR_LIMIT + 0.05 then True else floorLoop ps)"

text \<open>The segment list: base to position 0, then every pair of consecutive positions.\<close>

function segmentsLoop :: "vec3 list \<Rightarrow> nat \<Rightarrow> (vec3 \<times> vec3) list \<Rightarrow> (vec3 \<times> vec3) list" where
  "segmentsLoop positions i segments =
    (if i < length positions - 1
     then segmentsLoop positions (i + 1) (segments @ [(positions ! i, positions ! (i + 1))])
     else segments)"
  by pat_completeness auto
termination
  by (relation "measure (\<lambda>(positions, i, segments). length positions - 1 - i)") auto

text \<open>The two nested loops over the segment pairs \<open>i\<close>, \<open>j\<close> with \<open>j\<close> from \<open>i + 2\<close>.\<close>

function innerLoop :: "(vec3 \<times> vec3) list \<Rightarrow> nat \<Rightarrow> nat \<Rightarrow> bool" where
  "innerLoop segments i j =
    (if j < length segments then
       (if distSegmentToSegment (fst (segments ! i)) (snd (segments ! i))
                                (fst (segments ! j)) (snd (segments ! j))
           < COLLISION_WARNING_THRESHOLD
        then True
        else innerLoop segments i (j + 1))
     else False)"
  by pat_completeness auto
termination
  by (relation "measure (\<lambda>(segments, i, j). length segments - j)") auto

function outerLoop :: "(vec3 \<times> vec3) list \<Rightarrow> nat \<Rightarrow> bool" where
  "outerLoop segments i =
    (if i < length segments then
       (if innerLoop segments i (i + 2) then True else outerLoop segments (i + 1))
     else False)"
  by pat_completeness auto
termination
  by (relation "measure (\<lambda>(segments, i). length segments - i)") auto

definition checkSelfCollision :: "vec3 list \<Rightarrow> bool" where
  "checkSelfCollision positions =
    (if floorLoop positions then True
     else (let segments = segmentsLoop positions 0 [(Vector3 0 0 0, positions ! 0)]
           in outerLoop segments 0))"

subsection \<open>Inverse kinematics by cyclic coordinate descent\<close>

text \<open>
  The solver reads \<^verbatim>\<open>configs[i].min\<close>: with \<^verbatim>\<open>configs[i]\<close> undefined JavaScript
  throws a \<^verbatim>\<open>TypeError\<close>.  That is the only way \<^verbatim>\<open>solveIK\<close> can fail, and the model
  keeps it as an error value.
\<close>

datatype error = TypeError

definition threshold :: real where
  "threshold = 0.01"

definition maxIterations :: nat where
  "maxIterations = 5"

text \<open>
  The loop over \<open>j < i\<close> that replays the chain up to joint \<open>i - 1\<close> to find the frame
  in which joint \<open>i\<close> rotates.
\<close>

definition axisJoint :: "real list \<Rightarrow> vec3 list \<Rightarrow> nat \<Rightarrow> mat4 \<Rightarrow> mat4" where
  "axisJoint newAngles boneOffsets j tempMatrix =
    (let rot =
           (if vx (JOINT_AXES ! j) \<noteq> 0 then makeRotationX (newAngles ! j)
            else if vy (JOINT_AXES ! j) \<noteq> 0 then makeRotationY (newAngles ! j)
            else makeRotationZ (newAngles ! j));
         tempMatrix = multiply tempMatrix rot
     in multiply tempMatrix
          (makeTranslation (vx (boneOffsets ! (j + 1))) (vy (boneOffsets ! (j + 1)))
             (vz (boneOffsets ! (j + 1)))))"

function axisLoop :: "real list \<Rightarrow> vec3 list \<Rightarrow> nat \<Rightarrow> nat \<Rightarrow> mat4 \<Rightarrow> mat4" where
  "axisLoop newAngles boneOffsets i j tempMatrix =
    (if j < i then axisLoop newAngles boneOffsets i (j + 1)
                     (axisJoint newAngles boneOffsets j tempMatrix)
     else tempMatrix)"
  by pat_completeness auto
termination
  by (relation "measure (\<lambda>(newAngles, boneOffsets, i, j, tempMatrix). i - j)") auto

text \<open>
  The body of the backward pass for joint \<open>i\<close>.  The state is the working copy
  \<open>newAngles\<close> and the vector \<open>endEffectorPos\<close>, which the body overwrites after an
  update; \<open>positions\<close> is the result of \<^verbatim>\<open>computeFK\<close> at the start of the outer
  iteration, of which only the entries \<open>0\<close> to \<open>5\<close> are read here.
\<close>

definition ikJoint ::
  "vec3 \<Rightarrow> RobotDimensions \<Rightarrow> JointConfig list \<Rightarrow> vec3 list \<Rightarrow> nat
     \<Rightarrow> real list \<times> vec3 \<Rightarrow> error + real list \<times> vec3" where
  "ikJoint targetPos dims configs positions i st =
    (let newAngles = fst st;
         endEffectorPos = snd st;
         boneOffsets = getBoneOffsets dims;
         jointPos = positions ! i;
         toEnd = normalize (subVectors endEffectorPos jointPos);
         toTarget = normalize (subVectors targetPos jointPos);
         angleDiff = dot toEnd toTarget;
         angleDiff = max (- 1) (min 1 angleDiff)
     in if \<bar>1 - angleDiff\<bar> < 0.0001 then Inr st
        else
          (let tempMatrix = multiply identity4
                 (makeTranslation (vx (boneOffsets ! 0)) (vy (boneOffsets ! 0))
                    (vz (boneOffsets ! 0)));
               tempMatrix = axisLoop newAngles boneOffsets i 0 tempMatrix;
               worldAxis = normalize (transformDirection (JOINT_AXES ! i) tempMatrix);
               vE_proj = normalize (subVectors toEnd
                           (multiplyScalar worldAxis (dot toEnd worldAxis)));
               vT_proj = normalize (subVectors toTarget
                           (multiplyScalar worldAxis (dot toTarget worldAxis)));
               rotAngle = arccos (max (- 1) (min 1 (dot vE_proj vT_proj)));
               cross = crossVectors vE_proj vT_proj;
               rotAngle = (if dot cross worldAxis < 0 then - rotAngle else rotAngle);
               rotAngle = rotAngle * 0.5;
               newAngles = newAngles[i := newAngles ! i + rotAngle]
           in if i < length configs then
                (let newAngles = newAngles[i := max (jmin (configs ! i))
                                                  (min (jmax (configs ! i)) (newAngles ! i))];
                     updatedPos = computeFK newAngles dims
                 in Inr (newAngles, updatedPos ! 7))
              else Inl TypeError))"

text \<open>The backward pass \<^verbatim>\<open>for (let i = 5; i >= 0; i--)\<close>.\<close>

function sweepLoop ::
  "vec3 \<Rightarrow> RobotDimensions \<Rightarrow> JointConfig list \<Rightarrow> vec3 list \<Rightarrow> int
     \<Rightarrow> real list \<times> vec3 \<Rightarrow> error + real list \<times> vec3" where
  "sweepLoop targetPos dims configs positions i st =
    (if i \<ge> 0 then
       (case ikJoint targetPos dims configs positions (nat i) st of
          Inl err \<Rightarrow> Inl err
        | Inr st' \<Rightarrow> sweepLoop targetPos dims configs positions (i - 1) st')
     else Inr st)"
  by pat_completeness auto
termination
  by (relation "measure (\<lambda>(targetPos, dims, configs, positions, i, st). nat (i + 1))") auto

text \<open>The outer loop over \<open>iter\<close>, with its early exit.\<close>

function iterLoop ::
  "vec3 \<Rightarrow> RobotDimensions \<Rightarrow> JointConfig list \<Rightarrow> nat \<Rightarrow> real list \<Rightarrow> error + real list" where
  "iterLoop targetPos dims configs iter newAngles =
    (if iter < maxIterations then
       (let positions = computeFK newAngles dims;
            endEffectorPos = positions ! 7
        in if distanceTo endEffectorPos targetPos < threshold then Inr newAngles
           else (case sweepLoop targetPos dims configs positions 5 (newAngles, endEffectorPos) of
                   Inl err \<Rightarrow> Inl err
                 | Inr st' \<Rightarrow> iterLoop targetPos dims configs (iter + 1) (fst st')))
     else Inr newAngles)"
  by pat_completeness auto
termination
  by (relation "measure (\<lambda>(targetPos, dims, configs, iter, newAngles). maxIterations - iter)")
    auto

definition solveIK ::
  "vec3 \<Rightarrow> real list \<Rightarrow> RobotDimensions \<Rightarrow> JointConfig list \<Rightarrow> error + real list" where
  "solveIK targetPos currentAngles dims configs = iterLoop targetPos dims configs 0 currentAngles"

text \<open>
  The run of the solver as a list: one entry \<open>(iter, i, newAngles)\<close> for each execution of
  the body of the backward pass, with the value of \<open>newAngles\<close> when the body is left.
  The two functions follow \<open>sweepLoop\<close> and \<open>iterLoop\<close> step by step.
\<close>

function sweepTrace ::
  "vec3 \<Rightarrow> RobotDimensions \<Rightarrow> JointConfig list \<Rightarrow> vec3 list \<Rightarrow> int
     \<Rightarrow> real list \<times> vec3 \<Rightarrow> (nat \<times> real list) list" where
  "sweepTrace targetPos dims configs positions i st =
    (if i \<ge> 0 then
       (case ikJoint targetPos dims configs positions (nat i) st of
          Inl err \<Rightarrow> []
        | Inr st' \<Rightarrow> (nat i, fst st') # sweepTrace targetPos dims configs positions (i - 1) st')
     else [])"
  by pat_completeness auto
termination
  by (relation "measure (\<lambda>(targetPos, dims, configs, positions, i, st). nat (i + 1))") auto

function iterTrace ::
  "vec3 \<Rightarrow> RobotDimensions \<Rightarrow> JointConfig list \<Rightarrow> nat \<Rightarrow> real list
     \<Rightarrow> (nat \<times> nat \<times> real list) list" where
  "iterTrace targetPos dims configs iter newAngles =
    (if iter < maxIterations then
       (let positions = computeFK newAngles dims;
            endEffectorPos = positions ! 7
        in if distanceTo endEffectorPos targetPos < threshold then []
           else map (Pair iter)
                  (sweepTrace targetPos dims configs positions 5 (newAngles, endEffectorPos))
                @ (case sweepLoop targetPos dims configs positions 5 (newAngles, endEffectorPos) of
                     Inl err \<Rightarrow> []
                   | Inr st' \<Rightarrow> iterTrace targetPos dims configs (iter + 1) (fst st')))
     else [])"
  by pat_completeness auto
termination
  by (relation "measure (\<lambda>(targetPos, dims, configs, iter, newAngles). maxIterations - iter)")
    auto

definition solveIKTrace ::
  "vec3 \<Rightarrow> real list \<Rightarrow> RobotDimensions \<Rightarrow> JointConfig list \<Rightarrow> (nat \<times> nat \<times> real list) list" where
  "solveIKTrace targetPos currentAngles dims configs =
     iterTrace targetPos dims configs 0 currentAngles"

subsection \<open>Workspace generator\<close>

text \<open>
  \<^verbatim>\<open>Math.random\<close> is the stream \<open>random\<close> of its successive results together with
  the number \<open>k\<close> of values already drawn.  \<open>randAngles\<close> is the \<^verbatim>\<open>configs.map\<close>
  that draws one angle per joint, in order.
\<close>

fun randAngles :: "JointConfig list \<Rightarrow> (nat \<Rightarrow> real) \<Rightarrow> nat \<Rightarrow> real list" where
  "randAngles [] random k = []"
| "randAngles (j # js) random k =
     (jmin j + random k * (jmax j - jmin j)) # randAngles js random (k + 1)"

text \<open>
  The sampling loop.  \<open>points\<close> is the flat array the source pushes three coordinates
  to for every accepted sample; the conversion to a \<^verbatim>\<open>Float32Array\<close> and the state
  setters that follow the loop are not modelled.
\<close>

function workspaceLoop ::
  "nat \<Rightarrow> nat \<Rightarrow> RobotDimensions \<Rightarrow> JointConfig list \<Rightarrow> (nat \<Rightarrow> real) \<Rightarrow> nat
     \<Rightarrow> real list \<Rightarrow> real list" where
  "workspaceLoop i samples dims configs random k points =
    (if i < samples then
       (let angles = randAngles configs random k;
            positions = computeFK angles dims
        in if \<not> checkSelfCollision positions then
             (let tip = positions ! 7
              in workspaceLoop (i + 1) samples dims configs random (k + length configs)
                   (points @ [vx tip, vy tip, vz tip]))
           else workspaceLoop (i + 1) samples dims configs random (k + length configs) points)
     else points)"
  by pat_completeness auto
termination
  by (relation "measure (\<lambda>(i, samples, dims, configs, random, k, points). samples - i)") auto

definition generateWorkspace ::
  "nat \<Rightarrow> RobotDimensions \<Rightarrow> JointConfig list \<Rightarrow> (nat \<Rightarrow> real) \<Rightarrow> real list" where
  "generateWorkspace samples dims configs random =
     workspaceLoop 0 samples dims configs random 0 []"

subsection \<open>The collision verdict as the specification words it\<close>

text \<open>
  \<open>tooClose\<close> names the test of the inner loop.  \<open>specSegments\<close> and \<open>specCollision\<close>
  follow the specification, not the code: the eight segments are the fixed segment from
  the world origin to position 0 and the seven pairs of consecutive positions; the
  verdict is true when some position is below the floor buffer or when two segments
  whose indices differ by more than 1 are closer than the clearance 0.15.
\<close>

definition tooClose :: "(vec3 \<times> vec3) list \<Rightarrow> nat \<Rightarrow> nat \<Rightarrow> bool" where
  "tooClose segments i j \<longleftrightarrow>
     distSegmentToSegment (fst (segments ! i)) (snd (segments ! i))
                          (fst (segments ! j)) (snd (segments ! j)) < COLLISION_WARNING_THRESHOLD"

definition specSegments :: "vec3 list \<Rightarrow> (vec3 \<times> vec3) list" where
  "specSegments positions =
     (Vector3 0 0 0, positions ! 0) # map (\<lambda>k. (positions ! k, positions ! (k + 1))) [0..<7]"

definition specCollision :: "vec3 list \<Rightarrow> bool" where
  "specCollision positions \<longleftrightarrow>
     (\<exists>p \<in> set positions. vy p < FLOOR_LIMIT + 0.05)
     \<or> (\<exists>i \<in> {0..<8}. \<exists>j \<in> {0..<8}. i < j \<and> j - i > 1 \<and>
          distSegmentToSegment (fst (specSegments positions ! i)) (snd (specSegments positions ! i))
                               (fst (specSegments positions ! j)) (snd (specSegments positions ! j))
            < 0.15)"

subsection \<open>Auxiliary notions for the workspace generator\<close>

text \<open>
  \<open>samplePoint\<close> is what one round of the sampling loop pushes when the stream stands
  at position \<open>k\<close>: the three coordinates of the tip, or nothing when the pose collides.
  \<open>sampled points m\<close> says that \<open>points\<close> holds \<open>m\<close> triples, each the tip of a pose
  that was drawn from the stream and found free of collision.
\<close>

definition samplePoint ::
  "RobotDimensions \<Rightarrow> JointConfig list \<Rightarrow> (nat \<Rightarrow> real) \<Rightarrow> nat \<Rightarrow> real list" where
  "samplePoint dims configs random k =
    (let positions = computeFK (randAngles configs random k) dims
     in if \<not> checkSelfCollision positions
        then [vx (positions ! 7), vy (positions ! 7), vz (positions ! 7)] else [])"

definition sampled ::
  "RobotDimensions \<Rightarrow> JointConfig list \<Rightarrow> (nat \<Rightarrow> real) \<Rightarrow> real list \<Rightarrow> nat \<Rightarrow> bool" where
  "sampled dims configs random points m \<longleftrightarrow>
     length points = 3 * m
     \<and> (\<forall>n < m. \<exists>k. \<not> checkSelfCollision (computeFK (randAngles configs random k) dims)
           \<and> points ! (3 * n) = vx (computeFK (randAngles configs random k) dims ! 7)
           \<and> points ! (3 * n + 1) = vy (computeFK (randAngles configs random k) dims ! 7)
           \<and> points ! (3 * n + 2) = vz (computeFK (randAngles configs random k) dims ! 7))"

subsection \<open>Joint limits as predicates on angle vectors\<close>

text \<open>
  \<open>withinLimits\<close>: each of the seven angles lies in the range \<open>[min, max]\<close> of its joint.
  \<open>withinOrKept\<close>: each of the seven angles lies in that range or still has the value
  it has in the vector \<open>initial\<close>.
\<close>

definition withinLimits :: "JointConfig list \<Rightarrow> real list \<Rightarrow> bool" where
  "withinLimits configs angles \<longleftrightarrow>
     (\<forall>k < 7. jmin (configs ! k) \<le> angles ! k \<and> angles ! k \<le> jmax (configs ! k))"

definition withinOrKept :: "JointConfig list \<Rightarrow> real list \<Rightarrow> real list \<Rightarrow> bool" where
  "withinOrKept configs initial angles \<longleftrightarrow>
     length angles = 7
     \<and> (\<forall>k < 7. (jmin (configs ! k) \<le> angles ! k \<and> angles ! k \<le> jmax (configs ! k))
                 \<or> angles ! k = initial ! k)"

declare fkLoop.simps [simp del]
declare segmentsLoop.simps [simp del]
declare innerLoop.simps [simp del]
declare outerLoop.simps [simp del]
declare axisLoop.simps [simp del]
declare sweepLoop.simps [simp del]
declare iterLoop.simps [simp del]
declare sweepTrace.simps [simp del]
declare iterTrace.simps [simp del]
declare workspaceLoop.simps [simp del]

section \<open>Properties\<close>

subsection \<open>Forward kinematics in closed form\<close>

lemmas fk_defs = computeFK_def getBoneOffsets_def fkJoint_def JOINT_AXES_def
  multiply_def identity4_def makeTranslation_def makeRotationX_def makeRotationY_def
  makeRotationZ_def setFromMatrixPosition_def Let_def fkLoop.simps

text \<open>
  With the first five joints at zero, the arm runs up the base column and then along
  the local Z axis; the wrist pitch \<open>t\<close> bends the last two links in the Y-Z plane
  and the roll \<open>r\<close> moves no position.
\<close>

lemma fk_wrist:
  "computeFK [0, 0, 0, 0, 0, t, r] dims =
    [Vector3 0 (baseHeight dims) 0,
     Vector3 0 (baseHeight dims + j1j2 dims) 0,
     Vector3 0 (baseHeight dims + j1j2 dims) (j2j3 dims),
     Vector3 0 (baseHeight dims + j1j2 dims) (j2j3 dims + j3j4 dims),
     Vector3 0 (baseHeight dims + j1j2 dims) (j2j3 dims + j3j4 dims + j4j5 dims),
     Vector3 0 (baseHeight dims + j1j2 dims) (j2j3 dims + j3j4 dims + j4j5 dims + j5j6 dims),
     Vector3 0 (baseHeight dims + j1j2 dims - sin t * j6j7 dims)
               (j2j3 dims + j3j4 dims + j4j5 dims + j5j6 dims + cos t * j6j7 dims),
     Vector3 0 (baseHeight dims + j1j2 dims - sin t * j6j7 dims - sin t * j7tip dims)
               (j2j3 dims + j3j4 dims + j4j5 dims + j5j6 dims + cos t * j6j7 dims
                  + cos t * j7tip dims)]"
  by (simp add: fk_defs)

lemma fkLoop_length:
  "length (snd (fkLoop angles boneOffsets i st)) = length (snd st) + (7 - i)"
proof (induction angles boneOffsets i st rule: fkLoop.induct)
  case (1 angles boneOffsets i st)
  show ?case
  proof (cases "i < 7")
    case True
    then show ?thesis
      using "1.IH" by (subst fkLoop.simps) (simp add: fkJoint_def Let_def)
  next
    case False
    then show ?thesis by (subst fkLoop.simps) simp
  qed
qed

lemma computeFK_length: "length (computeFK angles dims) = 8"
  by (simp add: computeFK_def Let_def fkLoop_length)

text \<open>
  Claim C1, as amended.  At the all-zero angles and the default lengths the tip is not
  above the base: only the base column and the first link point up, the other six
  links lie along Z.  The tip has \<open>x = 0\<close>, height \<open>baseHeight + j1j2 = 0.5\<close> and
  horizontal offset \<open>z = j2j3 + j3j4 + j4j5 + j5j6 + j6j7 + j7tip = 3\<close>.
\<close>

theorem computeFK_zero_pose_tip:
  "computeFK [0, 0, 0, 0, 0, 0, 0] DEFAULT_DIMENSIONS ! 7 =
     Vector3 0 (baseHeight DEFAULT_DIMENSIONS + j1j2 DEFAULT_DIMENSIONS)
       (j2j3 DEFAULT_DIMENSIONS + j3j4 DEFAULT_DIMENSIONS + j4j5 DEFAULT_DIMENSIONS
          + j5j6 DEFAULT_DIMENSIONS + j6j7 DEFAULT_DIMENSIONS + j7tip DEFAULT_DIMENSIONS)
   \<and> computeFK [0, 0, 0, 0, 0, 0, 0] DEFAULT_DIMENSIONS ! 7 = Vector3 0 0.5 3"
  by (simp add: fk_wrist DEFAULT_DIMENSIONS_def)

text \<open>
  Claim C1 as stated fails: the tip has a horizontal offset of 3 and its height is 0.5,
  not the sum 3.5 of the eight lengths.
\<close>

theorem computeFK_zero_pose_not_vertical:
  "\<not> (vx (computeFK [0, 0, 0, 0, 0, 0, 0] DEFAULT_DIMENSIONS ! 7) = 0
      \<and> vz (computeFK [0, 0, 0, 0, 0, 0, 0] DEFAULT_DIMENSIONS ! 7) = 0
      \<and> vy (computeFK [0, 0, 0, 0, 0, 0, 0] DEFAULT_DIMENSIONS ! 7) =
          baseHeight DEFAULT_DIMENSIONS + j1j2 DEFAULT_DIMENSIONS + j2j3 DEFAULT_DIMENSIONS
          + j3j4 DEFAULT_DIMENSIONS + j4j5 DEFAULT_DIMENSIONS + j5j6 DEFAULT_DIMENSIONS
          + j6j7 DEFAULT_DIMENSIONS + j7tip DEFAULT_DIMENSIONS)"
  by (simp add: fk_wrist DEFAULT_DIMENSIONS_def)

subsection \<open>The segment distance\<close>

text \<open>
  Whenever a quotient is formed, its numerator lies between 0 and its positive
  denominator.  Only \<open>0 \<le> c\<close> is needed, which holds for a dot product of a vector
  with itself.
\<close>

lemma segParams_cases:
  assumes "0 \<le> c" "segParams a b c d e = (sN, sD, tN, tD)"
  shows "(\<not> \<bar>sN\<bar> < 0.000001 \<longrightarrow> 0 < sD \<and> 0 \<le> sN \<and> sN \<le> sD)
       \<and> (\<not> \<bar>tN\<bar> < 0.000001 \<longrightarrow> 0 < tD \<and> 0 \<le> tN \<and> tN \<le> tD)"
  using assms
  by (auto simp: segParams_def Let_def split: if_splits)

lemma dot_self_nonneg: "0 \<le> dot v v"
  by (simp add: dot_def)

lemma vlength_nonneg: "0 \<le> vlength v"
  by (simp add: vlength_def)

text \<open>The value returned is the distance between a point of each segment.\<close>

lemma dist_point_form:
  "\<exists>s t. 0 \<le> s \<and> s \<le> 1 \<and> 0 \<le> t \<and> t \<le> 1 \<and>
     distSegmentToSegment p1 q1 p2 q2 =
       vlength (subVectors
         (addVectors (subVectors p1 p2) (multiplyScalar (subVectors q1 p1) s))
         (multiplyScalar (subVectors q2 p2) t))"
proof -
  define u where "u = subVectors q1 p1"
  define v where "v = subVectors q2 p2"
  define w where "w = subVectors p1 p2"
  obtain sN sD tN tD where
    sp: "segParams (dot u u) (dot u v) (dot v v) (dot u w) (dot v w) = (sN, sD, tN, tD)"
    by (metis prod_cases4)
  define sc where "sc = (if \<bar>sN\<bar> < 0.000001 then 0 else sN / sD)"
  define tc where "tc = (if \<bar>tN\<bar> < 0.000001 then 0 else tN / tD)"
  have c: "(\<not> \<bar>sN\<bar> < 0.000001 \<longrightarrow> 0 < sD \<and> 0 \<le> sN \<and> sN \<le> sD)
       \<and> (\<not> \<bar>tN\<bar> < 0.000001 \<longrightarrow> 0 < tD \<and> 0 \<le> tN \<and> tN \<le> tD)"
    using segParams_cases [OF dot_self_nonneg sp] .
  have "0 \<le> sc \<and> sc \<le> 1" using c by (auto simp: sc_def)
  moreover have "0 \<le> tc \<and> tc \<le> 1" using c by (auto simp: tc_def)
  moreover have "distSegmentToSegment p1 q1 p2 q2 =
      vlength (subVectors (addVectors w (multiplyScalar u sc)) (multiplyScalar v tc))"
    using sp by (simp add: distSegmentToSegment_def Let_def u_def v_def w_def sc_def tc_def)
  ultimately show ?thesis unfolding u_def v_def w_def by blast
qed

lemma convex_le:
  fixes x y s a :: real
  assumes "x \<le> a" "y \<le> a" "0 \<le> s" "s \<le> 1"
  shows "x + (y - x) * s \<le> a"
proof -
  have "x + (y - x) * s = (1 - s) * x + s * y" by (simp add: algebra_simps)
  also have "\<dots> \<le> (1 - s) * a + s * a"
    using assms by (intro add_mono mult_left_mono) auto
  also have "\<dots> = a" by (simp add: algebra_simps)
  finally show ?thesis .
qed

lemma convex_ge:
  fixes x y s a :: real
  assumes "a \<le> x" "a \<le> y" "0 \<le> s" "s \<le> 1"
  shows "a \<le> x + (y - x) * s"
  using convex_le [of "- x" "- a" "- y" s] assms by (simp add: algebra_simps)

lemma vlength_ge_z: "\<bar>vz v\<bar> \<le> vlength v"
proof -
  have "\<bar>vz v\<bar> = sqrt (vz v * vz v)" by simp
  also have "\<dots> \<le> vlength v" unfolding vlength_def by (rule real_sqrt_le_mono) simp
  finally show ?thesis .
qed

lemma vlength_ge_y: "\<bar>vy v\<bar> \<le> vlength v"
proof -
  have "\<bar>vy v\<bar> = sqrt (vy v * vy v)" by simp
  also have "\<dots> \<le> vlength v" unfolding vlength_def by (rule real_sqrt_le_mono) simp
  finally show ?thesis .
qed

text \<open>
  Two segments that a plane \<open>z = const\<close> or \<open>y = const\<close> separates with a gap \<open>g\<close>
  are reported at a distance of at least \<open>g\<close>.
\<close>

lemma dist_sep_z:
  assumes "vz p1 \<le> a" "vz q1 \<le> a" "a + g \<le> vz p2" "a + g \<le> vz q2"
  shows "g \<le> distSegmentToSegment p1 q1 p2 q2"
proof -
  obtain s t where st: "0 \<le> s" "s \<le> 1" "0 \<le> t" "t \<le> 1"
    and d: "distSegmentToSegment p1 q1 p2 q2 =
       vlength (subVectors
         (addVectors (subVectors p1 p2) (multiplyScalar (subVectors q1 p1) s))
         (multiplyScalar (subVectors q2 p2) t))"
    using dist_point_form by blast
  let ?dP = "subVectors
         (addVectors (subVectors p1 p2) (multiplyScalar (subVectors q1 p1) s))
         (multiplyScalar (subVectors q2 p2) t)"
  have z: "vz ?dP = (vz p1 + (vz q1 - vz p1) * s) - (vz p2 + (vz q2 - vz p2) * t)"
    by (simp add: subVectors_def addVectors_def multiplyScalar_def)
  have "vz p1 + (vz q1 - vz p1) * s \<le> a" using assms st by (intro convex_le) auto
  moreover have "a + g \<le> vz p2 + (vz q2 - vz p2) * t" using assms st by (intro convex_ge) auto
  ultimately have "g \<le> \<bar>vz ?dP\<bar>" unfolding z by linarith
  also have "\<dots> \<le> vlength ?dP" by (rule vlength_ge_z)
  finally show ?thesis using d by simp
qed

lemma dist_sep_y:
  assumes "vy p1 \<le> a" "vy q1 \<le> a" "a + g \<le> vy p2" "a + g \<le> vy q2"
  shows "g \<le> distSegmentToSegment p1 q1 p2 q2"
proof -
  obtain s t where st: "0 \<le> s" "s \<le> 1" "0 \<le> t" "t \<le> 1"
    and d: "distSegmentToSegment p1 q1 p2 q2 =
       vlength (subVectors
         (addVectors (subVectors p1 p2) (multiplyScalar (subVectors q1 p1) s))
         (multiplyScalar (subVectors q2 p2) t))"
    using dist_point_form by blast
  let ?dP = "subVectors
         (addVectors (subVectors p1 p2) (multiplyScalar (subVectors q1 p1) s))
         (multiplyScalar (subVectors q2 p2) t)"
  have y: "vy ?dP = (vy p1 + (vy q1 - vy p1) * s) - (vy p2 + (vy q2 - vy p2) * t)"
    by (simp add: subVectors_def addVectors_def multiplyScalar_def)
  have "vy p1 + (vy q1 - vy p1) * s \<le> a" using assms st by (intro convex_le) auto
  moreover have "a + g \<le> vy p2 + (vy q2 - vy p2) * t" using assms st by (intro convex_ge) auto
  ultimately have "g \<le> \<bar>vy ?dP\<bar>" unfolding y by linarith
  also have "\<dots> \<le> vlength ?dP" by (rule vlength_ge_y)
  finally show ?thesis using d by simp
qed

text \<open>
  Claim C9.  For all segment end points, the two quotients \<open>sN / sD\<close> and \<open>tN / tD\<close>
  are formed only with a nonzero denominator: whenever the guard
  \<open>\<bar>sN\<bar> < 0.000001\<close> (or \<open>\<bar>tN\<bar> < 0.000001\<close>) fails, \<open>sD\<close> (or \<open>tD\<close>) is not zero.
  The value returned is not negative.
\<close>

theorem distSegmentToSegment_divisions_defined:
  "(case segParams (dot (subVectors q1 p1) (subVectors q1 p1))
                   (dot (subVectors q1 p1) (subVectors q2 p2))
                   (dot (subVectors q2 p2) (subVectors q2 p2))
                   (dot (subVectors q1 p1) (subVectors p1 p2))
                   (dot (subVectors q2 p2) (subVectors p1 p2)) of
      (sN, sD, tN, tD) \<Rightarrow>
        (\<not> \<bar>sN\<bar> < 0.000001 \<longrightarrow> sD \<noteq> 0) \<and> (\<not> \<bar>tN\<bar> < 0.000001 \<longrightarrow> tD \<noteq> 0))
   \<and> 0 \<le> distSegmentToSegment p1 q1 p2 q2"
proof -
  obtain sN sD tN tD where
    sp: "segParams (dot (subVectors q1 p1) (subVectors q1 p1))
                   (dot (subVectors q1 p1) (subVectors q2 p2))
                   (dot (subVectors q2 p2) (subVectors q2 p2))
                   (dot (subVectors q1 p1) (subVectors p1 p2))
                   (dot (subVectors q2 p2) (subVectors p1 p2)) = (sN, sD, tN, tD)"
    by (metis prod_cases4)
  have "(\<not> \<bar>sN\<bar> < 0.000001 \<longrightarrow> sD \<noteq> 0) \<and> (\<not> \<bar>tN\<bar> < 0.000001 \<longrightarrow> tD \<noteq> 0)"
    using segParams_cases [OF dot_self_nonneg sp] by auto
  moreover have "0 \<le> distSegmentToSegment p1 q1 p2 q2"
    by (simp add: distSegmentToSegment_def Let_def vlength_nonneg split: prod.split)
  ultimately show ?thesis using sp by simp
qed

text \<open>
  Two skew segments whose closest points are both mid points: both quotients are
  formed, \<open>8 / 16\<close> each, and the distance is 1.
\<close>

theorem distSegmentToSegment_divisions_defined_witness:
  "segParams 4 0 4 (- 2) 2 = (8, 16, 8, 16)
   \<and> \<not> \<bar>8 :: real\<bar> < 0.000001 \<and> (16 :: real) \<noteq> 0
   \<and> 0 \<le> distSegmentToSegment (Vector3 (- 1) 0 0) (Vector3 1 0 0)
                               (Vector3 0 (- 1) 1) (Vector3 0 1 1)
   \<and> distSegmentToSegment (Vector3 (- 1) 0 0) (Vector3 1 0 0)
                               (Vector3 0 (- 1) 1) (Vector3 0 1 1) = 1"
  using distSegmentToSegment_divisions_defined
          [of "Vector3 1 0 0" "Vector3 (- 1) 0 0" "Vector3 0 1 1" "Vector3 0 (- 1) 1"]
  by (simp add: segParams_def distSegmentToSegment_def subVectors_def addVectors_def
      multiplyScalar_def dot_def vlength_def Let_def)

subsection \<open>The collision check as a statement about positions and segment pairs\<close>

lemma floorLoop_iff: "floorLoop ps \<longleftrightarrow> (\<exists>p \<in> set ps. vy p < FLOOR_LIMIT + 0.05)"
  by (induction ps) auto

lemma segmentsLoop_eq:
  "segmentsLoop positions i segments =
     segments @ map (\<lambda>k. (positions ! k, positions ! (k + 1))) [i..<length positions - 1]"
proof (induction positions i segments rule: segmentsLoop.induct)
  case (1 positions i segments)
  show ?case
  proof (cases "i < length positions - 1")
    case True
    then show ?thesis
      using "1.IH" by (subst segmentsLoop.simps) (simp add: upt_conv_Cons)
  next
    case False
    then show ?thesis by (subst segmentsLoop.simps) simp
  qed
qed

lemma innerLoop_iff:
  "innerLoop segments i j \<longleftrightarrow> (\<exists>j'. j \<le> j' \<and> j' < length segments \<and> tooClose segments i j')"
proof (induction segments i j rule: innerLoop.induct)
  case (1 segments i j)
  show ?case
  proof (cases "j < length segments")
    case False
    then show ?thesis by (subst innerLoop.simps) auto
  next
    case True
    show ?thesis
    proof (cases "tooClose segments i j")
      case True
      with \<open>j < length segments\<close> show ?thesis
        by (subst innerLoop.simps) (auto simp: tooClose_def)
    next
      case False
      then have "innerLoop segments i j = innerLoop segments i (j + 1)"
        using \<open>j < length segments\<close> by (subst innerLoop.simps) (simp add: tooClose_def)
      also have "\<dots> \<longleftrightarrow> (\<exists>j'. j + 1 \<le> j' \<and> j' < length segments \<and> tooClose segments i j')"
        using "1.IH" \<open>j < length segments\<close> False by (simp add: tooClose_def)
      also have "\<dots> \<longleftrightarrow> (\<exists>j'. j \<le> j' \<and> j' < length segments \<and> tooClose segments i j')"
        using False by (metis Suc_eq_plus1 Suc_leD Suc_leI le_neq_implies_less)
      finally show ?thesis .
    qed
  qed
qed

lemma outerLoop_iff:
  "outerLoop segments i \<longleftrightarrow>
     (\<exists>i' j'. i \<le> i' \<and> i' + 2 \<le> j' \<and> j' < length segments \<and> tooClose segments i' j')"
proof (induction segments i rule: outerLoop.induct)
  case (1 segments i)
  show ?case
  proof (cases "i < length segments")
    case False
    then show ?thesis by (subst outerLoop.simps) auto
  next
    case True
    show ?thesis
    proof (cases "innerLoop segments i (i + 2)")
      case True
      with \<open>i < length segments\<close> show ?thesis
        by (subst outerLoop.simps) (auto simp: innerLoop_iff)
    next
      case False
      then have "outerLoop segments i = outerLoop segments (i + 1)"
        using \<open>i < length segments\<close> by (subst outerLoop.simps) simp
      also have "\<dots> \<longleftrightarrow>
          (\<exists>i' j'. i + 1 \<le> i' \<and> i' + 2 \<le> j' \<and> j' < length segments \<and> tooClose segments i' j')"
        using "1.IH" \<open>i < length segments\<close> False by simp
      also have "\<dots> \<longleftrightarrow>
          (\<exists>i' j'. i \<le> i' \<and> i' + 2 \<le> j' \<and> j' < length segments \<and> tooClose segments i' j')"
      proof
        assume "\<exists>i' j'. i + 1 \<le> i' \<and> i' + 2 \<le> j' \<and> j' < length segments \<and> tooClose segments i' j'"
        then show "\<exists>i' j'. i \<le> i' \<and> i' + 2 \<le> j' \<and> j' < length segments \<and> tooClose segments i' j'"
          by (meson add_leD1)
      next
        assume "\<exists>i' j'. i \<le> i' \<and> i' + 2 \<le> j' \<and> j' < length segments \<and> tooClose segments i' j'"
        then obtain i' j' where h: "i \<le> i'" "i' + 2 \<le> j'" "j' < length segments"
          "tooClose segments i' j'" by blast
        have "i' \<noteq> i" using h False by (auto simp: innerLoop_iff)
        then have "i + 1 \<le> i'" using h by simp
        then show "\<exists>i' j'. i + 1 \<le> i' \<and> i' + 2 \<le> j' \<and> j' < length segments \<and> tooClose segments i' j'"
          using h by blast
      qed
      finally show ?thesis .
    qed
  qed
qed

text \<open>
  Claim C3.  On eight joint positions \<^verbatim>\<open>checkSelfCollision\<close> answers true exactly when
  some position is lower than \<open>FLOOR_LIMIT + 0.05\<close>, or two of the eight segments whose
  indices differ by more than 1 have a segment distance below 0.15.  The distance of a
  pair is computed with the segment of lower index first, as the loops do.
\<close>

theorem checkSelfCollision_meets_spec:
  assumes "length positions = 8"
  shows "checkSelfCollision positions = specCollision positions"
proof -
  have segs: "segmentsLoop positions 0 [(Vector3 0 0 0, positions ! 0)] = specSegments positions"
    using assms by (simp add: segmentsLoop_eq specSegments_def)
  have len: "length (specSegments positions) = 8" by (simp add: specSegments_def)
  have "outerLoop (specSegments positions) 0 \<longleftrightarrow>
     (\<exists>i \<in> {0..<8}. \<exists>j \<in> {0..<8}. i < j \<and> j - i > 1 \<and>
          distSegmentToSegment (fst (specSegments positions ! i)) (snd (specSegments positions ! i))
                               (fst (specSegments positions ! j)) (snd (specSegments positions ! j))
            < 0.15)" (is "?L \<longleftrightarrow> ?R")
  proof
    assume ?L
    then obtain i j where "i + 2 \<le> j" "j < 8" "tooClose (specSegments positions) i j"
      unfolding outerLoop_iff len by auto
    then have "i \<in> {0..<8}" "j \<in> {0..<8}" "i < j" "j - i > 1"
      "distSegmentToSegment (fst (specSegments positions ! i)) (snd (specSegments positions ! i))
                               (fst (specSegments positions ! j)) (snd (specSegments positions ! j))
            < 0.15"
      by (auto simp: tooClose_def COLLISION_WARNING_THRESHOLD_def)
    then show ?R by blast
  next
    assume ?R
    then obtain i j where "i < j" "j - i > 1" "j < 8" "tooClose (specSegments positions) i j"
      by (auto simp: tooClose_def COLLISION_WARNING_THRESHOLD_def)
    then show ?L unfolding outerLoop_iff len
      by (intro exI [of _ i] exI [of _ j]) auto
  qed
  then show ?thesis
    by (simp add: checkSelfCollision_def specCollision_def floorLoop_iff segs Let_def)
qed

text \<open>Eight positions on the floor plane: both sides answer true.\<close>

theorem checkSelfCollision_meets_spec_witness:
  "length (replicate 8 (Vector3 0 0 0)) = 8
   \<and> checkSelfCollision (replicate 8 (Vector3 0 0 0))
   \<and> specCollision (replicate 8 (Vector3 0 0 0))"
  using checkSelfCollision_meets_spec [of "replicate 8 (Vector3 0 0 0)"]
  by (simp add: checkSelfCollision_def FLOOR_LIMIT_def numeral_eq_Suc)

subsection \<open>The default rest pose\<close>

lemma checkSelfCollision_iff:
  "checkSelfCollision positions \<longleftrightarrow>
     (\<exists>p \<in> set positions. vy p < FLOOR_LIMIT + 0.05)
     \<or> (\<exists>i j. i + 2 \<le> j
            \<and> j < length (segmentsLoop positions 0 [(Vector3 0 0 0, positions ! 0)])
            \<and> tooClose (segmentsLoop positions 0 [(Vector3 0 0 0, positions ! 0)]) i j)"
  by (simp add: checkSelfCollision_def floorLoop_iff outerLoop_iff Let_def)

lemma not_tooClose_z:
  assumes "vz (fst (segments ! i)) \<le> a" "vz (snd (segments ! i)) \<le> a"
    "a + 0.15 \<le> vz (fst (segments ! j))" "a + 0.15 \<le> vz (snd (segments ! j))"
  shows "\<not> tooClose segments i j"
  using dist_sep_z [OF assms] by (simp add: tooClose_def COLLISION_WARNING_THRESHOLD_def)

lemma not_tooClose_y:
  assumes "vy (fst (segments ! i)) \<le> a" "vy (snd (segments ! i)) \<le> a"
    "a + 0.15 \<le> vy (fst (segments ! j))" "a + 0.15 \<le> vy (snd (segments ! j))"
  shows "\<not> tooClose segments i j"
  using dist_sep_y [OF assms] by (simp add: tooClose_def COLLISION_WARNING_THRESHOLD_def)

lemma pairs_enum:
  assumes "i + 2 \<le> j" "j < (8::nat)"
  shows "(i, j) \<in> set [(0,2),(0,3),(0,4),(0,5),(0,6),(0,7),(1,3),(1,4),(1,5),(1,6),(1,7),
      (2,4),(2,5),(2,6),(2,7),(3,5),(3,6),(3,7),(4,6),(4,7),(5,7)]"
proof -
  have "j = 2 \<or> j = 3 \<or> j = 4 \<or> j = 5 \<or> j = 6 \<or> j = 7" using assms by linarith
  moreover have "i = 0 \<or> i = 1 \<or> i = 2 \<or> i = 3 \<or> i = 4 \<or> i = 5" using assms by linarith
  ultimately show ?thesis using assms(1) by (elim disjE) simp_all
qed

lemma sqrt2_bounds: "7 / 5 \<le> sqrt 2" "sqrt 2 \<le> 9 / 5"
proof -
  show "7 / 5 \<le> sqrt 2" by (rule real_le_rsqrt) (simp add: power2_eq_square)
  show "sqrt 2 \<le> 9 / 5" by (rule real_le_lsqrt) (simp_all add: power2_eq_square)
qed

text \<open>
  With the first five joints at zero and the default lengths, a wrist pitch \<open>t\<close> with
  \<open>sin t \<le> 0.9\<close> and \<open>cos t \<ge> 0.5\<close> keeps the arm clear of the floor and of itself.
\<close>

lemma wrist_pose_collision_free:
  assumes "sin t \<le> 9 / 10" "1 / 2 \<le> cos t"
  shows "\<not> checkSelfCollision (computeFK [0, 0, 0, 0, 0, t, r] DEFAULT_DIMENSIONS)"
proof -
  define ps where "ps =
    [Vector3 0 0.2 0, Vector3 0 0.5 0, Vector3 0 0.5 0.8, Vector3 0 0.5 1.4, Vector3 0 0.5 2,
     Vector3 0 0.5 2.5,
     Vector3 0 (0.5 - sin t * 0.3) (2.5 + cos t * 0.3),
     Vector3 0 (0.5 - sin t * 0.5) (2.5 + cos t * 0.5)]"
  define segs where "segs =
    [(Vector3 0 0 0, Vector3 0 0.2 0), (Vector3 0 0.2 0, Vector3 0 0.5 0),
     (Vector3 0 0.5 0, Vector3 0 0.5 0.8), (Vector3 0 0.5 0.8, Vector3 0 0.5 1.4),
     (Vector3 0 0.5 1.4, Vector3 0 0.5 2), (Vector3 0 0.5 2, Vector3 0 0.5 2.5),
     (Vector3 0 0.5 2.5, Vector3 0 (0.5 - sin t * 0.3) (2.5 + cos t * 0.3)),
     (Vector3 0 (0.5 - sin t * 0.3) (2.5 + cos t * 0.3),
      Vector3 0 (0.5 - sin t * 0.5) (2.5 + cos t * 0.5))]"
  have ps: "computeFK [0, 0, 0, 0, 0, t, r] DEFAULT_DIMENSIONS = ps"
    by (simp add: fk_wrist DEFAULT_DIMENSIONS_def ps_def algebra_simps)
  have segs: "segmentsLoop ps 0 [(Vector3 0 0 0, ps ! 0)] = segs"
    by (simp add: ps_def segmentsLoop.simps segs_def)
  have floor: "\<not> (\<exists>p \<in> set ps. vy p < FLOOR_LIMIT + 0.05)"
    using assms by (simp add: ps_def FLOOR_LIMIT_def)
  have y02: "\<not> tooClose segs 0 2"
    by (rule not_tooClose_y [where a = "0.2"]) (simp_all add: segs_def)
  have z0: "\<not> tooClose segs 0 3" "\<not> tooClose segs 0 4" "\<not> tooClose segs 0 5"
    "\<not> tooClose segs 0 6" "\<not> tooClose segs 0 7"
    by (rule not_tooClose_z [where a = "0"]; insert assms; simp add: segs_def)+
  have z1: "\<not> tooClose segs 1 3" "\<not> tooClose segs 1 4" "\<not> tooClose segs 1 5"
    "\<not> tooClose segs 1 6" "\<not> tooClose segs 1 7"
    by (rule not_tooClose_z [where a = "0"]; insert assms; simp add: segs_def)+
  have z2: "\<not> tooClose segs 2 4" "\<not> tooClose segs 2 5" "\<not> tooClose segs 2 6"
    "\<not> tooClose segs 2 7"
    by (rule not_tooClose_z [where a = "0.8"]; insert assms; simp add: segs_def)+
  have z3: "\<not> tooClose segs 3 5" "\<not> tooClose segs 3 6" "\<not> tooClose segs 3 7"
    by (rule not_tooClose_z [where a = "1.4"]; insert assms; simp add: segs_def)+
  have z4: "\<not> tooClose segs 4 6" "\<not> tooClose segs 4 7"
    by (rule not_tooClose_z [where a = "2"]; insert assms; simp add: segs_def)+
  have z5: "\<not> tooClose segs 5 7"
    by (rule not_tooClose_z [where a = "2.5"]; insert assms; simp add: segs_def)
  have len: "length segs = 8" by (simp add: segs_def)
  have "\<not> tooClose segs i j" if "i + 2 \<le> j" "j < 8" for i j
  proof -
    have "(i, j) \<in> set [(0,2),(0,3),(0,4),(0,5),(0,6),(0,7),(1,3),(1,4),(1,5),(1,6),(1,7),
      (2,4),(2,5),(2,6),(2,7),(3,5),(3,6),(3,7),(4,6),(4,7),(5,7)]"
      using pairs_enum [OF that] .
    then show ?thesis
      using y02 z0 z1 z2 z3 z4 z5 by (elim set_ConsD [elim_format]) auto
  qed
  then have nc: "\<not> (\<exists>i j. i + 2 \<le> j \<and> j < length segs \<and> tooClose segs i j)"
    unfolding len by blast
  show ?thesis
    unfolding ps checkSelfCollision_iff segs using floor nc by blast
qed

text \<open>
  Claim C5.  The default rest pose, all default joint values with the default lengths,
  is free of collision: every position is above the floor buffer and every pair of
  segments that is checked is at least 0.15 apart.
\<close>

theorem rest_pose_collision_free:
  "map defaultValue DEFAULT_JOINTS = [0, 0, 0, 0, 0, pi / 4, 0]
   \<and> \<not> checkSelfCollision (computeFK (map defaultValue DEFAULT_JOINTS) DEFAULT_DIMENSIONS)"
proof -
  have "map defaultValue DEFAULT_JOINTS = [0, 0, 0, 0, 0, pi / 4, 0]"
    by (simp add: DEFAULT_JOINTS_def)
  moreover have "sin (pi / 4) \<le> 9 / 10" using sqrt2_bounds by (simp add: sin_45)
  moreover have "1 / 2 \<le> cos (pi / 4)" using sqrt2_bounds by (simp add: cos_45)
  ultimately show ?thesis using wrist_pose_collision_free by simp
qed

subsection \<open>The workspace generator\<close>

lemma sampled_push:
  assumes "sampled dims configs random points m"
    "\<not> checkSelfCollision (computeFK (randAngles configs random k) dims)"
  shows "sampled dims configs random
           (points @ [vx (computeFK (randAngles configs random k) dims ! 7),
                      vy (computeFK (randAngles configs random k) dims ! 7),
                      vz (computeFK (randAngles configs random k) dims ! 7)]) (m + 1)"
proof -
  let ?tip = "computeFK (randAngles configs random k) dims ! 7"
  let ?pts = "points @ [vx ?tip, vy ?tip, vz ?tip]"
  have len: "length points = 3 * m" using assms(1) by (simp add: sampled_def)
  have "\<exists>k. \<not> checkSelfCollision (computeFK (randAngles configs random k) dims)
           \<and> ?pts ! (3 * n) = vx (computeFK (randAngles configs random k) dims ! 7)
           \<and> ?pts ! (3 * n + 1) = vy (computeFK (randAngles configs random k) dims ! 7)
           \<and> ?pts ! (3 * n + 2) = vz (computeFK (randAngles configs random k) dims ! 7)"
    if "n < m + 1" for n
  proof (cases "n < m")
    case True
    then have "3 * n < length points" "3 * n + 1 < length points" "3 * n + 2 < length points"
      using len by auto
    then show ?thesis using assms(1) True by (simp add: sampled_def nth_append)
  next
    case False
    then have "n = m" using that by simp
    then have "?pts ! (3 * n) = vx ?tip" "?pts ! (3 * n + 1) = vy ?tip" "?pts ! (3 * n + 2) = vz ?tip"
      using len by (simp_all add: nth_append)
    then show ?thesis using assms(2) by blast
  qed
  then show ?thesis using len by (simp add: sampled_def)
qed

lemma workspaceLoop_sampled:
  assumes "sampled dims configs random points m" "m \<le> i"
  shows "\<exists>m'. m' \<le> m + (samples - i)
           \<and> sampled dims configs random (workspaceLoop i samples dims configs random k points) m'"
  using assms
proof (induction i samples dims configs random k points arbitrary: m rule: workspaceLoop.induct)
  case (1 i samples dims configs random k points)
  show ?case
  proof (cases "i < samples")
    case False
    then show ?thesis using "1.prems" by (subst workspaceLoop.simps) auto
  next
    case True
    show ?thesis
    proof (cases "checkSelfCollision (computeFK (randAngles configs random k) dims)")
      case True
      then have eq: "workspaceLoop i samples dims configs random k points =
          workspaceLoop (i + 1) samples dims configs random (k + length configs) points"
        using \<open>i < samples\<close> by (subst workspaceLoop.simps) (simp add: Let_def)
      obtain m' where "m' \<le> m + (samples - (i + 1))"
        "sampled dims configs random
           (workspaceLoop (i + 1) samples dims configs random (k + length configs) points) m'"
        using "1.IH"(2) [OF \<open>i < samples\<close> refl refl _ "1.prems"(1)] True "1.prems"(2) by auto
      then show ?thesis unfolding eq using \<open>i < samples\<close> by (intro exI [of _ m']) auto
    next
      case False
      let ?tip = "computeFK (randAngles configs random k) dims ! 7"
      have eq: "workspaceLoop i samples dims configs random k points =
          workspaceLoop (i + 1) samples dims configs random (k + length configs)
            (points @ [vx ?tip, vy ?tip, vz ?tip])"
        using \<open>i < samples\<close> False by (subst workspaceLoop.simps) (simp add: Let_def)
      have s: "sampled dims configs random (points @ [vx ?tip, vy ?tip, vz ?tip]) (m + 1)"
        using sampled_push [OF "1.prems"(1) False] .
      obtain m' where "m' \<le> (m + 1) + (samples - (i + 1))"
        "sampled dims configs random
           (workspaceLoop (i + 1) samples dims configs random (k + length configs)
              (points @ [vx ?tip, vy ?tip, vz ?tip])) m'"
        using "1.IH"(1) [OF \<open>i < samples\<close> refl refl _ refl s] False "1.prems"(2) by auto
      then show ?thesis unfolding eq using \<open>i < samples\<close> by (intro exI [of _ m']) auto
    qed
  qed
qed

lemma generateWorkspace_sampled:
  "\<exists>m \<le> samples. sampled dims configs random (generateWorkspace samples dims configs random) m"
proof -
  have "sampled dims configs random [] 0" by (simp add: sampled_def)
  from workspaceLoop_sampled [OF this, of 0 samples 0]
  show ?thesis by (auto simp: generateWorkspace_def)
qed

lemma randAngles_length: "length (randAngles configs random k) = length configs"
  by (induction configs arbitrary: k) auto

lemma randAngles_nth:
  "i < length configs \<Longrightarrow>
     randAngles configs random k ! i
       = jmin (configs ! i) + random (k + i) * (jmax (configs ! i) - jmin (configs ! i))"
proof (induction configs arbitrary: k i)
  case Nil
  then show ?case by simp
next
  case (Cons j js)
  then show ?case by (cases i) auto
qed

lemma interpolate_in_range:
  fixes lo hi r :: real
  assumes "lo \<le> hi" "0 \<le> r" "r < 1"
  shows "lo \<le> lo + r * (hi - lo)" "lo + r * (hi - lo) \<le> hi"
proof -
  show "lo \<le> lo + r * (hi - lo)" using assms by simp
  have "r * (hi - lo) \<le> 1 * (hi - lo)" using assms by (intro mult_right_mono) auto
  then show "lo + r * (hi - lo) \<le> hi" by simp
qed

lemma floor_clear:
  assumes "\<not> checkSelfCollision positions" "p \<in> set positions"
  shows "FLOOR_LIMIT + 0.05 \<le> vy p"
  using assms by (auto simp: checkSelfCollision_iff)

lemma tip_floor_clear:
  assumes "\<not> checkSelfCollision (computeFK angles dims)"
  shows "FLOOR_LIMIT + 0.05 \<le> vy (computeFK angles dims ! 7)"
  by (rule floor_clear [OF assms]) (simp add: computeFK_length)


lemma workspaceLoop_concat:
  "workspaceLoop i samples dims configs random k points =
     points @ concat (map (\<lambda>t. samplePoint dims configs random (k + (t - i) * length configs))
                        [i..<samples])"
proof (induction i samples dims configs random k points rule: workspaceLoop.induct)
  case (1 i samples dims configs random k points)
  show ?case
  proof (cases "i < samples")
    case False
    then show ?thesis by (subst workspaceLoop.simps) simp
  next
    case True
    have shift: "map (\<lambda>t. samplePoint dims configs random (k + length configs + (t - (i + 1)) * length configs))
                    [i + 1..<samples]
        = map (\<lambda>t. samplePoint dims configs random (k + (t - i) * length configs)) [i + 1..<samples]"
    proof (rule map_cong [OF refl])
      fix t assume "t \<in> set [i + 1..<samples]"
      then have "t - i = Suc (t - (i + 1))" by auto
      then show "samplePoint dims configs random (k + length configs + (t - (i + 1)) * length configs)
          = samplePoint dims configs random (k + (t - i) * length configs)"
        by (simp add: add.assoc)
    qed
    have upt: "[i..<samples] = i # [i + 1..<samples]" using True by (simp add: upt_conv_Cons)
    show ?thesis
    proof (cases "checkSelfCollision (computeFK (randAngles configs random k) dims)")
      case True
      have "workspaceLoop i samples dims configs random k points =
          workspaceLoop (i + 1) samples dims configs random (k + length configs) points"
        using \<open>i < samples\<close> True by (subst workspaceLoop.simps) (simp add: Let_def)
      also have "\<dots> = points @ concat (map (\<lambda>t. samplePoint dims configs random
                          (k + length configs + (t - (i + 1)) * length configs)) [i + 1..<samples])"
        using "1.IH"(2) [OF \<open>i < samples\<close> refl refl] True by simp
      finally show ?thesis unfolding shift upt using True by (simp add: samplePoint_def Let_def)
    next
      case False
      let ?tip = "computeFK (randAngles configs random k) dims ! 7"
      have "workspaceLoop i samples dims configs random k points =
          workspaceLoop (i + 1) samples dims configs random (k + length configs)
            (points @ [vx ?tip, vy ?tip, vz ?tip])"
        using \<open>i < samples\<close> False by (subst workspaceLoop.simps) (simp add: Let_def)
      also have "\<dots> = (points @ [vx ?tip, vy ?tip, vz ?tip])
           @ concat (map (\<lambda>t. samplePoint dims configs random
                          (k + length configs + (t - (i + 1)) * length configs)) [i + 1..<samples])"
        using "1.IH"(1) [OF \<open>i < samples\<close> refl refl _ refl] False by simp
      finally show ?thesis unfolding shift upt using False by (simp add: samplePoint_def Let_def)
    qed
  qed
qed

lemma randAngles_in_range:
  assumes "\<forall>j \<in> set configs. jmin j \<le> jmax j" "\<forall>k. 0 \<le> random k \<and> random k < 1"
    "i < length configs"
  shows "jmin (configs ! i) \<le> randAngles configs random k ! i
       \<and> randAngles configs random k ! i \<le> jmax (configs ! i)"
proof -
  have "jmin (configs ! i) \<le> jmax (configs ! i)" using assms(1,3) by simp
  then show ?thesis
    using assms(2,3) interpolate_in_range [of "jmin (configs ! i)" "jmax (configs ! i)" "random (k + i)"]
    by (simp add: randAngles_nth)
qed

text \<open>
  One round on a pose with the first six joints at zero and the default lengths: the
  pose is free of collision and its tip \<open>(0, 0.5, 3)\<close> is emitted.
\<close>

lemma zero_pose_free: "\<not> checkSelfCollision (computeFK [0, 0, 0, 0, 0, 0, r] DEFAULT_DIMENSIONS)"
  using wrist_pose_collision_free [of 0 r] by simp

lemma zero_pose_tip: "computeFK [0, 0, 0, 0, 0, 0, r] DEFAULT_DIMENSIONS ! 7 = Vector3 0 (1 / 2) 3"
  by (simp add: fk_wrist DEFAULT_DIMENSIONS_def)

lemma one_sample:
  "randAngles configs random 0 = [0, 0, 0, 0, 0, 0, r] \<Longrightarrow>
     generateWorkspace 1 DEFAULT_DIMENSIONS configs random = [0, 1 / 2, 3]"
  by (simp add: generateWorkspace_def workspaceLoop_concat samplePoint_def Let_def
      zero_pose_free zero_pose_tip)

lemma frozen_draw:
  "randAngles (map (\<lambda>j. j\<lparr>jmin := 0, jmax := 0\<rparr>) DEFAULT_JOINTS) (\<lambda>k. 1 / 2) 0
     = [0, 0, 0, 0, 0, 0, 0]"
  by (simp add: DEFAULT_JOINTS_def)

lemma swapped_draw:
  "randAngles (DEFAULT_JOINTS [6 := (DEFAULT_JOINTS ! 6)\<lparr>jmin := 1, jmax := 0\<rparr>]) (\<lambda>k. 1 / 2) 0
     = [0, 0, 0, 0, 0, 0, 1 / 2]"
  by (simp add: DEFAULT_JOINTS_def)

text \<open>
  Claim C6, as amended: for seven limits with \<open>min \<le> max\<close> each.  For all lengths,
  every sample count and every stream of draws from \<open>[0, 1)\<close>, the generator emits
  \<open>m \<le> samples\<close> points, three numbers each, and every point is the tip of
  \<^verbatim>\<open>computeFK\<close> at seven angles that lie within their limits and whose positions pass
  the collision check.  The array is the concatenation over the rounds, in order, of the
  tip of each collision-free round; a colliding round adds nothing.
\<close>

theorem generateWorkspace_points_valid:
  assumes "length configs = 7" "\<forall>j \<in> set configs. jmin j \<le> jmax j"
    "\<forall>k. 0 \<le> random k \<and> random k < 1"
  shows "(\<exists>m \<le> samples. length (generateWorkspace samples dims configs random) = 3 * m
      \<and> (\<forall>n < m. \<exists>angles. length angles = 7
            \<and> (\<forall>i < 7. jmin (configs ! i) \<le> angles ! i \<and> angles ! i \<le> jmax (configs ! i))
            \<and> \<not> checkSelfCollision (computeFK angles dims)
            \<and> generateWorkspace samples dims configs random ! (3 * n)
                  = vx (computeFK angles dims ! 7)
            \<and> generateWorkspace samples dims configs random ! (3 * n + 1)
                  = vy (computeFK angles dims ! 7)
            \<and> generateWorkspace samples dims configs random ! (3 * n + 2)
                  = vz (computeFK angles dims ! 7)))
    \<and> generateWorkspace samples dims configs random
        = concat (map (\<lambda>t. samplePoint dims configs random (t * length configs)) [0..<samples])"
proof -
  let ?pts = "generateWorkspace samples dims configs random"
  obtain m where m: "m \<le> samples" "sampled dims configs random ?pts m"
    using generateWorkspace_sampled by blast
  have "\<exists>angles. length angles = 7
            \<and> (\<forall>i < 7. jmin (configs ! i) \<le> angles ! i \<and> angles ! i \<le> jmax (configs ! i))
            \<and> \<not> checkSelfCollision (computeFK angles dims)
            \<and> ?pts ! (3 * n) = vx (computeFK angles dims ! 7)
            \<and> ?pts ! (3 * n + 1) = vy (computeFK angles dims ! 7)
            \<and> ?pts ! (3 * n + 2) = vz (computeFK angles dims ! 7)" if "n < m" for n
  proof -
    have "\<exists>k. \<not> checkSelfCollision (computeFK (randAngles configs random k) dims)
           \<and> ?pts ! (3 * n) = vx (computeFK (randAngles configs random k) dims ! 7)
           \<and> ?pts ! (3 * n + 1) = vy (computeFK (randAngles configs random k) dims ! 7)
           \<and> ?pts ! (3 * n + 2) = vz (computeFK (randAngles configs random k) dims ! 7)"
      using m(2) that by (simp add: sampled_def)
    then obtain k where k: "\<not> checkSelfCollision (computeFK (randAngles configs random k) dims)"
      "?pts ! (3 * n) = vx (computeFK (randAngles configs random k) dims ! 7)"
      "?pts ! (3 * n + 1) = vy (computeFK (randAngles configs random k) dims ! 7)"
      "?pts ! (3 * n + 2) = vz (computeFK (randAngles configs random k) dims ! 7)"
      by blast
    have "length (randAngles configs random k) = 7" using assms(1) by (simp add: randAngles_length)
    moreover have "\<forall>i < 7. jmin (configs ! i) \<le> randAngles configs random k ! i
         \<and> randAngles configs random k ! i \<le> jmax (configs ! i)"
      using randAngles_in_range [OF assms(2,3)] assms(1) by simp
    ultimately show ?thesis using k by blast
  qed
  moreover have "length ?pts = 3 * m" using m(2) by (simp add: sampled_def)
  moreover have "?pts = concat (map (\<lambda>t. samplePoint dims configs random (t * length configs)) [0..<samples])"
    by (simp add: generateWorkspace_def workspaceLoop_concat)
  ultimately show ?thesis using m(1) by blast
qed

text \<open>All seven joints frozen at 0: one round, one point, the tip \<open>(0, 0.5, 3)\<close>.\<close>

theorem generateWorkspace_points_valid_witness:
  "length (map (\<lambda>j. j\<lparr>jmin := 0, jmax := 0\<rparr>) DEFAULT_JOINTS) = 7
   \<and> generateWorkspace 1 DEFAULT_DIMENSIONS
        (map (\<lambda>j. j\<lparr>jmin := 0, jmax := 0\<rparr>) DEFAULT_JOINTS) (\<lambda>k. 1 / 2) = [0, 1 / 2, 3]
   \<and> (\<exists>angles. length angles = 7
        \<and> \<not> checkSelfCollision (computeFK angles DEFAULT_DIMENSIONS)
        \<and> vx (computeFK angles DEFAULT_DIMENSIONS ! 7) = 0
        \<and> vy (computeFK angles DEFAULT_DIMENSIONS ! 7) = 1 / 2
        \<and> vz (computeFK angles DEFAULT_DIMENSIONS ! 7) = 3)"
proof -
  let ?cfg = "map (\<lambda>j. j\<lparr>jmin := 0, jmax := 0\<rparr>) DEFAULT_JOINTS"
  let ?pts = "generateWorkspace 1 DEFAULT_DIMENSIONS ?cfg (\<lambda>k. 1 / 2)"
  have len: "length ?cfg = 7" by (simp add: DEFAULT_JOINTS_def)
  have lim: "\<forall>j \<in> set ?cfg. jmin j \<le> jmax j" by simp
  have rnd: "\<forall>k::nat. 0 \<le> (1 / 2 :: real) \<and> (1 / 2 :: real) < 1" by simp
  have pts: "?pts = [0, 1 / 2, 3]" using one_sample [OF frozen_draw] .
  obtain m where m: "length ?pts = 3 * m"
    "\<forall>n < m. \<exists>angles. length angles = 7
            \<and> (\<forall>i < 7. jmin (?cfg ! i) \<le> angles ! i \<and> angles ! i \<le> jmax (?cfg ! i))
            \<and> \<not> checkSelfCollision (computeFK angles DEFAULT_DIMENSIONS)
            \<and> ?pts ! (3 * n) = vx (computeFK angles DEFAULT_DIMENSIONS ! 7)
            \<and> ?pts ! (3 * n + 1) = vy (computeFK angles DEFAULT_DIMENSIONS ! 7)
            \<and> ?pts ! (3 * n + 2) = vz (computeFK angles DEFAULT_DIMENSIONS ! 7)"
    using generateWorkspace_points_valid [OF len lim rnd, of 1 DEFAULT_DIMENSIONS] by blast
  have "m = 1" using m(1) unfolding pts by simp
  then obtain angles where "length angles = 7"
    "\<not> checkSelfCollision (computeFK angles DEFAULT_DIMENSIONS)"
    "?pts ! (3 * 0) = vx (computeFK angles DEFAULT_DIMENSIONS ! 7)"
    "?pts ! (3 * 0 + 1) = vy (computeFK angles DEFAULT_DIMENSIONS ! 7)"
    "?pts ! (3 * 0 + 2) = vz (computeFK angles DEFAULT_DIMENSIONS ! 7)"
    using m(2) by (metis zero_less_one)
  then show ?thesis using len pts by (intro conjI exI [of _ angles]) simp_all
qed

text \<open>
  Claim C6 as stated, for every limit configuration, fails when a joint has
  \<open>min > max\<close>.  With the limits of the roll joint set to \<open>min = 1\<close>, \<open>max = 0\<close> and all
  draws equal to \<open>1 / 2\<close>, the generator draws the angles \<open>[0, 0, 0, 0, 0, 0, 1 / 2]\<close> and
  emits the tip \<open>(0, 0.5, 3)\<close>, while no angle vector at all lies within the limits.
\<close>

theorem generateWorkspace_swapped_limits_emits:
  "generateWorkspace 1 DEFAULT_DIMENSIONS
      (DEFAULT_JOINTS [6 := (DEFAULT_JOINTS ! 6)\<lparr>jmin := 1, jmax := 0\<rparr>]) (\<lambda>k. 1 / 2)
     = [0, 1 / 2, 3]
   \<and> \<not> (\<exists>angles. \<forall>i < 7.
          jmin (DEFAULT_JOINTS [6 := (DEFAULT_JOINTS ! 6)\<lparr>jmin := 1, jmax := 0\<rparr>] ! i) \<le> angles ! i
          \<and> angles ! i \<le> jmax (DEFAULT_JOINTS [6 := (DEFAULT_JOINTS ! 6)\<lparr>jmin := 1, jmax := 0\<rparr>] ! i))"
proof -
  have "\<not> (\<exists>angles. \<forall>i < 7.
          jmin (DEFAULT_JOINTS [6 := (DEFAULT_JOINTS ! 6)\<lparr>jmin := 1, jmax := 0\<rparr>] ! i) \<le> angles ! i
          \<and> angles ! i \<le> jmax (DEFAULT_JOINTS [6 := (DEFAULT_JOINTS ! 6)\<lparr>jmin := 1, jmax := 0\<rparr>] ! i))"
  proof
    assume "\<exists>angles. \<forall>i < 7.
          jmin (DEFAULT_JOINTS [6 := (DEFAULT_JOINTS ! 6)\<lparr>jmin := 1, jmax := 0\<rparr>] ! i) \<le> angles ! i
          \<and> angles ! i \<le> jmax (DEFAULT_JOINTS [6 := (DEFAULT_JOINTS ! 6)\<lparr>jmin := 1, jmax := 0\<rparr>] ! i)"
    then obtain angles :: "real list" where "\<forall>i < 7.
          jmin (DEFAULT_JOINTS [6 := (DEFAULT_JOINTS ! 6)\<lparr>jmin := 1, jmax := 0\<rparr>] ! i) \<le> angles ! i
          \<and> angles ! i \<le> jmax (DEFAULT_JOINTS [6 := (DEFAULT_JOINTS ! 6)\<lparr>jmin := 1, jmax := 0\<rparr>] ! i)"
      by blast
    then have "jmin (DEFAULT_JOINTS [6 := (DEFAULT_JOINTS ! 6)\<lparr>jmin := 1, jmax := 0\<rparr>] ! 6) \<le> angles ! 6
          \<and> angles ! 6 \<le> jmax (DEFAULT_JOINTS [6 := (DEFAULT_JOINTS ! 6)\<lparr>jmin := 1, jmax := 0\<rparr>] ! 6)"
      by simp
    then show False by (auto simp: DEFAULT_JOINTS_def)
  qed
  then show ?thesis using one_sample [OF swapped_draw] by simp
qed

text \<open>
  Claim C10.  Every point the generator emits has a height (second coordinate of its
  triple) of at least \<open>FLOOR_LIMIT + 0.05\<close>.
\<close>

theorem generateWorkspace_points_above_floor:
  assumes "length configs = 7"
  shows "\<forall>n. 3 * n + 1 < length (generateWorkspace samples dims configs random)
     \<longrightarrow> FLOOR_LIMIT + 0.05 \<le> generateWorkspace samples dims configs random ! (3 * n + 1)"
proof (intro allI impI)
  fix n
  let ?pts = "generateWorkspace samples dims configs random"
  assume n: "3 * n + 1 < length ?pts"
  obtain m where m: "sampled dims configs random ?pts m"
    using generateWorkspace_sampled by blast
  then have "length ?pts = 3 * m" by (simp add: sampled_def)
  then have "n < m" using n by simp
  then have "\<exists>k. \<not> checkSelfCollision (computeFK (randAngles configs random k) dims)
           \<and> ?pts ! (3 * n) = vx (computeFK (randAngles configs random k) dims ! 7)
           \<and> ?pts ! (3 * n + 1) = vy (computeFK (randAngles configs random k) dims ! 7)
           \<and> ?pts ! (3 * n + 2) = vz (computeFK (randAngles configs random k) dims ! 7)"
    using m by (simp add: sampled_def)
  then obtain k where "\<not> checkSelfCollision (computeFK (randAngles configs random k) dims)"
      "?pts ! (3 * n + 1) = vy (computeFK (randAngles configs random k) dims ! 7)"
    by blast
  then show "FLOOR_LIMIT + 0.05 \<le> ?pts ! (3 * n + 1)"
    using tip_floor_clear by simp
qed


text \<open>The same frozen joints: the height emitted is 0.5.\<close>

theorem generateWorkspace_points_above_floor_witness:
  "length (map (\<lambda>j. j\<lparr>jmin := 0, jmax := 0\<rparr>) DEFAULT_JOINTS) = 7
   \<and> generateWorkspace 1 DEFAULT_DIMENSIONS
        (map (\<lambda>j. j\<lparr>jmin := 0, jmax := 0\<rparr>) DEFAULT_JOINTS) (\<lambda>k. 1 / 2) = [0, 1 / 2, 3]
   \<and> FLOOR_LIMIT + 0.05 \<le> generateWorkspace 1 DEFAULT_DIMENSIONS
        (map (\<lambda>j. j\<lparr>jmin := 0, jmax := 0\<rparr>) DEFAULT_JOINTS) (\<lambda>k. 1 / 2) ! 1"
proof -
  let ?cfg = "map (\<lambda>j. j\<lparr>jmin := 0, jmax := 0\<rparr>) DEFAULT_JOINTS"
  let ?pts = "generateWorkspace 1 DEFAULT_DIMENSIONS ?cfg (\<lambda>k. 1 / 2)"
  have len: "length ?cfg = 7" by (simp add: DEFAULT_JOINTS_def)
  have pts: "?pts = [0, 1 / 2, 3]" using one_sample [OF frozen_draw] .
  have "3 * 0 + 1 < length ?pts" unfolding pts by simp
  then have "FLOOR_LIMIT + 0.05 \<le> ?pts ! (3 * 0 + 1)"
    using generateWorkspace_points_above_floor [OF len, of 1 DEFAULT_DIMENSIONS "\<lambda>k. 1 / 2"]
    by blast
  then show ?thesis using len pts by simp
qed


subsection \<open>The solver: one joint, one backward pass, the outer loop\<close>

text \<open>
  The body of the backward pass either leaves the state as it is (the \<^verbatim>\<open>continue\<close>),
  or replaces the angle of joint \<open>i\<close> by a clamped value, or fails for want of
  \<^verbatim>\<open>configs[i]\<close>.
\<close>

lemma ikJoint_shape:
  "\<exists>skip x. ikJoint targetPos dims configs positions i st =
     (if skip then Inr st
      else if i < length configs then
        Inr ((fst st)[i := max (jmin (configs ! i)) (min (jmax (configs ! i)) x)],
             computeFK ((fst st)[i := max (jmin (configs ! i)) (min (jmax (configs ! i)) x)]) dims ! 7)
      else Inl TypeError)"
  unfolding ikJoint_def Let_def list_update_overwrite
  by (intro exI) (rule refl)

lemma ikJoint_cases:
  assumes "ikJoint targetPos dims configs positions i st = Inr st'"
  shows "st' = st
       \<or> (i < length configs
          \<and> (\<exists>x. fst st' = (fst st)[i := max (jmin (configs ! i)) (min (jmax (configs ! i)) x)]))"
proof -
  obtain skip x where "ikJoint targetPos dims configs positions i st =
     (if skip then Inr st
      else if i < length configs then
        Inr ((fst st)[i := max (jmin (configs ! i)) (min (jmax (configs ! i)) x)],
             computeFK ((fst st)[i := max (jmin (configs ! i)) (min (jmax (configs ! i)) x)]) dims ! 7)
      else Inl TypeError)"
    using ikJoint_shape by blast
  then show ?thesis using assms by (auto split: if_splits)
qed

lemma ikJoint_total:
  assumes "i < length configs"
  shows "\<exists>st'. ikJoint targetPos dims configs positions i st = Inr st'"
proof -
  obtain skip x where "ikJoint targetPos dims configs positions i st =
     (if skip then Inr st
      else if i < length configs then
        Inr ((fst st)[i := max (jmin (configs ! i)) (min (jmax (configs ! i)) x)],
             computeFK ((fst st)[i := max (jmin (configs ! i)) (min (jmax (configs ! i)) x)]) dims ! 7)
      else Inl TypeError)"
    using ikJoint_shape by blast
  then show ?thesis using assms by auto
qed

lemma sweepLoop_invariant:
  assumes "\<And>j s s'. 0 \<le> j \<Longrightarrow> j \<le> i \<Longrightarrow> Q (fst s)
              \<Longrightarrow> ikJoint targetPos dims configs positions (nat j) s = Inr s' \<Longrightarrow> Q (fst s')"
    and "Q (fst st)"
    and "sweepLoop targetPos dims configs positions i st = Inr st'"
  shows "Q (fst st') \<and> (\<forall>e \<in> set (sweepTrace targetPos dims configs positions i st). Q (snd e))"
  using assms
proof (induction targetPos dims configs positions i st rule: sweepLoop.induct)
  case (1 targetPos dims configs positions i st)
  show ?case
  proof (cases "i \<ge> 0")
    case False
    then show ?thesis using "1.prems"
      by (subst sweepTrace.simps) (simp add: sweepLoop.simps)
  next
    case True
    then obtain s1 where s1: "ikJoint targetPos dims configs positions (nat i) st = Inr s1"
      and rest: "sweepLoop targetPos dims configs positions (i - 1) s1 = Inr st'"
      using "1.prems"(3) by (subst (asm) sweepLoop.simps) (auto split: sum.splits)
    have q1: "Q (fst s1)" using "1.prems"(1) [OF True _ "1.prems"(2) s1] by simp
    have "Q (fst st') \<and> (\<forall>e \<in> set (sweepTrace targetPos dims configs positions (i - 1) s1). Q (snd e))"
    proof (rule "1.IH" [OF True s1 _ q1 rest])
      fix j s s'
      assume "0 \<le> j" "j \<le> i - 1" "Q (fst s)"
        "ikJoint targetPos dims configs positions (nat j) s = Inr s'"
      then show "Q (fst s')" using "1.prems"(1) [of j s s'] by simp
    qed
    then show ?thesis using True s1 q1
      by (subst sweepTrace.simps) simp
  qed
qed

lemma sweepLoop_total:
  assumes "i < int (length configs)"
  shows "\<exists>st'. sweepLoop targetPos dims configs positions i st = Inr st'"
  using assms
proof (induction targetPos dims configs positions i st rule: sweepLoop.induct)
  case (1 targetPos dims configs positions i st)
  show ?case
  proof (cases "i \<ge> 0")
    case False
    then show ?thesis by (simp add: sweepLoop.simps)
  next
    case True
    then have "nat i < length configs" using "1.prems" by simp
    then obtain s1 where s1: "ikJoint targetPos dims configs positions (nat i) st = Inr s1"
      using ikJoint_total by blast
    obtain st' where "sweepLoop targetPos dims configs positions (i - 1) s1 = Inr st'"
      using "1.IH" [OF True s1] "1.prems" by auto
    then show ?thesis using True s1 by (subst sweepLoop.simps) simp
  qed
qed

lemma sweepTrace_joints:
  assumes "i < int (length configs)" "-1 \<le> i"
  shows "map fst (sweepTrace targetPos dims configs positions i st) = rev [0..<nat (i + 1)]"
  using assms
proof (induction targetPos dims configs positions i st rule: sweepTrace.induct)
  case (1 targetPos dims configs positions i st)
  show ?case
  proof (cases "i \<ge> 0")
    case False
    then have "i = -1" using "1.prems" by simp
    then show ?thesis by (subst sweepTrace.simps) simp
  next
    case True
    then have "nat i < length configs" using "1.prems" by simp
    then obtain s1 where s1: "ikJoint targetPos dims configs positions (nat i) st = Inr s1"
      using ikJoint_total by blast
    have "map fst (sweepTrace targetPos dims configs positions (i - 1) s1) = rev [0..<nat (i - 1 + 1)]"
      using "1.IH" [OF True s1] "1.prems" True by simp
    moreover have "nat (i + 1) = Suc (nat i)" using True by simp
    ultimately show ?thesis using True s1
      by (subst sweepTrace.simps) simp
  qed
qed

lemma sweepTrace_last:
  assumes "sweepLoop targetPos dims configs positions i st = Inr st'"
  shows "fst st' = last (fst st # map snd (sweepTrace targetPos dims configs positions i st))"
  using assms
proof (induction targetPos dims configs positions i st rule: sweepLoop.induct)
  case (1 targetPos dims configs positions i st)
  show ?case
  proof (cases "i \<ge> 0")
    case False
    then show ?thesis using "1.prems"
      by (subst sweepTrace.simps) (simp add: sweepLoop.simps)
  next
    case True
    then obtain s1 where s1: "ikJoint targetPos dims configs positions (nat i) st = Inr s1"
      and rest: "sweepLoop targetPos dims configs positions (i - 1) s1 = Inr st'"
      using "1.prems" by (subst (asm) sweepLoop.simps) (auto split: sum.splits)
    have "fst st' = last (fst s1 # map snd (sweepTrace targetPos dims configs positions (i - 1) s1))"
      using "1.IH" [OF True s1 rest] .
    then show ?thesis using True s1
      by (subst sweepTrace.simps) simp
  qed
qed


lemma iterLoop_unfold_exit:
  assumes "iter < maxIterations"
    "distanceTo (computeFK newAngles dims ! 7) targetPos < threshold"
  shows "iterLoop targetPos dims configs iter newAngles = Inr newAngles"
    and "iterTrace targetPos dims configs iter newAngles = []"
proof -
  show "iterLoop targetPos dims configs iter newAngles = Inr newAngles"
    using assms by (subst iterLoop.simps) (simp add: Let_def)
  show "iterTrace targetPos dims configs iter newAngles = []"
    using assms by (subst iterTrace.simps) (simp add: Let_def)
qed

lemma iterLoop_unfold_done:
  assumes "\<not> iter < maxIterations"
  shows "iterLoop targetPos dims configs iter newAngles = Inr newAngles"
    and "iterTrace targetPos dims configs iter newAngles = []"
proof -
  show "iterLoop targetPos dims configs iter newAngles = Inr newAngles"
    using assms by (subst iterLoop.simps) simp
  show "iterTrace targetPos dims configs iter newAngles = []"
    using assms by (subst iterTrace.simps) simp
qed

lemma iterLoop_unfold_step:
  assumes "iter < maxIterations"
    "\<not> distanceTo (computeFK newAngles dims ! 7) targetPos < threshold"
    "sweepLoop targetPos dims configs (computeFK newAngles dims) 5
       (newAngles, computeFK newAngles dims ! 7) = Inr st'"
  shows "iterLoop targetPos dims configs iter newAngles
           = iterLoop targetPos dims configs (iter + 1) (fst st')"
    and "iterTrace targetPos dims configs iter newAngles
           = map (Pair iter) (sweepTrace targetPos dims configs (computeFK newAngles dims) 5
                                (newAngles, computeFK newAngles dims ! 7))
             @ iterTrace targetPos dims configs (iter + 1) (fst st')"
proof -
  show "iterLoop targetPos dims configs iter newAngles
           = iterLoop targetPos dims configs (iter + 1) (fst st')"
    using assms by (subst iterLoop.simps) (simp add: Let_def)
  show "iterTrace targetPos dims configs iter newAngles
           = map (Pair iter) (sweepTrace targetPos dims configs (computeFK newAngles dims) 5
                                (newAngles, computeFK newAngles dims ! 7))
             @ iterTrace targetPos dims configs (iter + 1) (fst st')"
    using assms by (subst iterTrace.simps) (simp add: Let_def)
qed

lemma iterLoop_unfold_error:
  assumes "iter < maxIterations"
    "\<not> distanceTo (computeFK newAngles dims ! 7) targetPos < threshold"
    "sweepLoop targetPos dims configs (computeFK newAngles dims) 5
       (newAngles, computeFK newAngles dims ! 7) = Inl err"
  shows "iterLoop targetPos dims configs iter newAngles = Inl err"
  using assms
  by (subst iterLoop.simps) (simp add: Let_def)

lemma iterLoop_invariant:
  assumes "\<And>ps j s s'. 0 \<le> j \<Longrightarrow> j \<le> 5 \<Longrightarrow> Q (fst s)
              \<Longrightarrow> ikJoint targetPos dims configs ps (nat j) s = Inr s' \<Longrightarrow> Q (fst s')"
    and "Q newAngles"
    and "iterLoop targetPos dims configs iter newAngles = Inr r"
  shows "Q r \<and> (\<forall>e \<in> set (iterTrace targetPos dims configs iter newAngles). Q (snd (snd e)))"
  using assms
proof (induction targetPos dims configs iter newAngles rule: iterLoop.induct)
  case (1 targetPos dims configs iter newAngles)
  let ?ps = "computeFK newAngles dims"
  consider (finished) "\<not> iter < maxIterations"
    | (early) "iter < maxIterations" "distanceTo (?ps ! 7) targetPos < threshold"
    | (step) "iter < maxIterations" "\<not> distanceTo (?ps ! 7) targetPos < threshold"
    by blast
  then show ?case
  proof cases
    case finished
    then show ?thesis using "1.prems"(2,3) by (simp add: iterLoop_unfold_done)
  next
    case early
    then show ?thesis using "1.prems"(2,3) by (simp add: iterLoop_unfold_exit)
  next
    case step
    show ?thesis
    proof (cases "sweepLoop targetPos dims configs ?ps 5 (newAngles, ?ps ! 7)")
      case (Inl err)
      then show ?thesis using "1.prems"(3) iterLoop_unfold_error [OF step Inl] by simp
    next
      case (Inr st')
      have sw: "Q (fst st') \<and> (\<forall>e \<in> set (sweepTrace targetPos dims configs ?ps 5 (newAngles, ?ps ! 7)).
                   Q (snd e))"
      proof (rule sweepLoop_invariant [OF _ _ Inr])
        show "Q (fst (newAngles, ?ps ! 7))" using "1.prems"(2) by simp
      next
        fix j s s'
        assume "0 \<le> j" "j \<le> 5" "Q (fst s)" "ikJoint targetPos dims configs ?ps (nat j) s = Inr s'"
        then show "Q (fst s')" using "1.prems"(1) by blast
      qed
      have r: "iterLoop targetPos dims configs (iter + 1) (fst st') = Inr r"
        using "1.prems"(3) iterLoop_unfold_step(1) [OF step Inr] by simp
      have "Q r \<and> (\<forall>e \<in> set (iterTrace targetPos dims configs (iter + 1) (fst st')). Q (snd (snd e)))"
      proof (rule "1.IH" [OF step(1) refl refl step(2) Inr _ _ r])
        show "Q (fst st')" using sw by simp
      next
        fix ps j s s'
        assume "0 \<le> j" "j \<le> 5" "Q (fst s)" "ikJoint targetPos dims configs ps (nat j) s = Inr s'"
        then show "Q (fst s')" using "1.prems"(1) by blast
      qed
      then show ?thesis using sw unfolding iterLoop_unfold_step(2) [OF step Inr] by auto
    qed
  qed
qed

lemma iterLoop_total:
  assumes "6 \<le> length configs"
  shows "\<exists>r. iterLoop targetPos dims configs iter newAngles = Inr r"
  using assms
proof (induction targetPos dims configs iter newAngles rule: iterLoop.induct)
  case (1 targetPos dims configs iter newAngles)
  let ?ps = "computeFK newAngles dims"
  consider (finished) "\<not> iter < maxIterations"
    | (early) "iter < maxIterations" "distanceTo (?ps ! 7) targetPos < threshold"
    | (step) "iter < maxIterations" "\<not> distanceTo (?ps ! 7) targetPos < threshold"
    by blast
  then show ?case
  proof cases
    case finished
    then show ?thesis by (simp add: iterLoop_unfold_done)
  next
    case early
    then show ?thesis by (simp add: iterLoop_unfold_exit)
  next
    case step
    have "(5::int) < int (length configs)" using "1.prems" by linarith
    then obtain st' where sw: "sweepLoop targetPos dims configs ?ps 5 (newAngles, ?ps ! 7) = Inr st'"
      using sweepLoop_total by blast
    show ?thesis
      using "1.IH" [OF step(1) refl refl step(2) sw "1.prems"] iterLoop_unfold_step(1) [OF step sw]
      by simp
  qed
qed


lemma last_append_step: "last (a # (xs @ ys)) = last (last (a # xs) # ys)"
  by (cases ys) auto

lemma iterTrace_last:
  assumes "iterLoop targetPos dims configs iter newAngles = Inr r"
  shows "r = last (newAngles # map (\<lambda>e. snd (snd e)) (iterTrace targetPos dims configs iter newAngles))"
  using assms
proof (induction targetPos dims configs iter newAngles rule: iterLoop.induct)
  case (1 targetPos dims configs iter newAngles)
  let ?ps = "computeFK newAngles dims"
  consider (finished) "\<not> iter < maxIterations"
    | (early) "iter < maxIterations" "distanceTo (?ps ! 7) targetPos < threshold"
    | (step) "iter < maxIterations" "\<not> distanceTo (?ps ! 7) targetPos < threshold"
    by blast
  then show ?case
  proof cases
    case finished
    then show ?thesis using "1.prems" by (simp add: iterLoop_unfold_done)
  next
    case early
    then show ?thesis using "1.prems" by (simp add: iterLoop_unfold_exit)
  next
    case step
    show ?thesis
    proof (cases "sweepLoop targetPos dims configs ?ps 5 (newAngles, ?ps ! 7)")
      case (Inl err)
      then show ?thesis using "1.prems" iterLoop_unfold_error [OF step Inl] by simp
    next
      case (Inr st')
      have r: "iterLoop targetPos dims configs (iter + 1) (fst st') = Inr r"
        using "1.prems" iterLoop_unfold_step(1) [OF step Inr] by simp
      have "r = last (fst st' # map (\<lambda>e. snd (snd e))
                  (iterTrace targetPos dims configs (iter + 1) (fst st')))"
        using "1.IH" [OF step(1) refl refl step(2) Inr r] .
      moreover have "fst st' = last (newAngles # map snd
          (sweepTrace targetPos dims configs ?ps 5 (newAngles, ?ps ! 7)))"
        using sweepTrace_last [OF Inr] by simp
      ultimately show ?thesis
        unfolding iterLoop_unfold_step(2) [OF step Inr]
        by (simp add: last_append_step comp_def)
    qed
  qed
qed

lemma iterTrace_shape:
  assumes "6 \<le> length configs"
  shows "\<exists>n. (n = 0 \<or> iter + n \<le> maxIterations)
     \<and> map (\<lambda>e. (fst e, fst (snd e))) (iterTrace targetPos dims configs iter newAngles)
         = concat (map (\<lambda>it. map (Pair it) (rev [0..<6])) [iter..<iter + n])"
  using assms
proof (induction targetPos dims configs iter newAngles rule: iterLoop.induct)
  case (1 targetPos dims configs iter newAngles)
  let ?ps = "computeFK newAngles dims"
  consider (finished) "\<not> iter < maxIterations"
    | (early) "iter < maxIterations" "distanceTo (?ps ! 7) targetPos < threshold"
    | (step) "iter < maxIterations" "\<not> distanceTo (?ps ! 7) targetPos < threshold"
    by blast
  then show ?case
  proof cases
    case finished
    then show ?thesis by (intro exI [of _ 0]) (simp add: iterLoop_unfold_done)
  next
    case early
    then show ?thesis by (intro exI [of _ 0]) (simp add: iterLoop_unfold_exit)
  next
    case step
    have five: "(5::int) < int (length configs)" using "1.prems" by linarith
    then obtain st' where sw: "sweepLoop targetPos dims configs ?ps 5 (newAngles, ?ps ! 7) = Inr st'"
      using sweepLoop_total by blast
    obtain n where n: "n = 0 \<or> iter + 1 + n \<le> maxIterations"
      "map (\<lambda>e. (fst e, fst (snd e))) (iterTrace targetPos dims configs (iter + 1) (fst st'))
         = concat (map (\<lambda>it. map (Pair it) (rev [0..<6])) [iter + 1..<iter + 1 + n])"
      using "1.IH" [OF step(1) refl refl step(2) sw "1.prems"] by blast
    have joints: "map fst (sweepTrace targetPos dims configs ?ps 5 (newAngles, ?ps ! 7)) = rev [0..<6]"
      using sweepTrace_joints [OF five, of targetPos dims ?ps "(newAngles, ?ps ! 7)"] by simp
    have head: "map (\<lambda>e. (fst e, fst (snd e)))
            (map (Pair iter) (sweepTrace targetPos dims configs ?ps 5 (newAngles, ?ps ! 7)))
          = map (Pair iter) (rev [0..<6])"
      unfolding joints [symmetric] by (simp add: comp_def)
    have upt: "[iter..<iter + (n + 1)] = iter # [iter + 1..<iter + 1 + n]"
      by (simp add: upt_conv_Cons)
    have "iter + (n + 1) \<le> maxIterations" using n(1) step(1) by auto
    moreover have "map (\<lambda>e. (fst e, fst (snd e))) (iterTrace targetPos dims configs iter newAngles)
         = concat (map (\<lambda>it. map (Pair it) (rev [0..<6])) [iter..<iter + (n + 1)])"
      unfolding iterLoop_unfold_step(2) [OF step sw] upt using head n(2) by simp
    ultimately show ?thesis by blast
  qed
qed

lemma ikJoint_length:
  assumes "ikJoint targetPos dims configs positions i st = Inr st'"
  shows "length (fst st') = length (fst st)"
  using ikJoint_cases [OF assms] by auto

lemma ikJoint_other:
  assumes "ikJoint targetPos dims configs positions i st = Inr st'" "k \<noteq> i"
  shows "fst st' ! k = fst st ! k"
  using ikJoint_cases [OF assms(1)] assms(2) by auto

lemma limit_clamp_bounds:
  fixes lo hi x :: real
  assumes "lo \<le> hi"
  shows "lo \<le> max lo (min hi x) \<and> max lo (min hi x) \<le> hi"
  using assms by auto

lemma ikJoint_withinOrKept:
  assumes "ikJoint targetPos dims configs positions i st = Inr st'"
    "withinOrKept configs initial (fst st)" "\<forall>j \<in> set configs. jmin j \<le> jmax j"
  shows "withinOrKept configs initial (fst st')"
proof -
  have len: "length (fst st') = 7"
    using ikJoint_length [OF assms(1)] assms(2) by (simp add: withinOrKept_def)
  have "(jmin (configs ! k) \<le> fst st' ! k \<and> fst st' ! k \<le> jmax (configs ! k))
        \<or> fst st' ! k = initial ! k" if "k < 7" for k
  proof (cases "k = i")
    case False
    then show ?thesis
      using ikJoint_other [OF assms(1) False] assms(2) that by (simp add: withinOrKept_def)
  next
    case True
    from ikJoint_cases [OF assms(1)] show ?thesis
    proof
      assume "st' = st"
      then show ?thesis using assms(2) that by (simp add: withinOrKept_def)
    next
      assume "i < length configs
          \<and> (\<exists>x. fst st' = (fst st)[i := max (jmin (configs ! i)) (min (jmax (configs ! i)) x)])"
      then obtain x where i: "i < length configs"
        and upd: "fst st' = (fst st)[i := max (jmin (configs ! i)) (min (jmax (configs ! i)) x)]"
        by blast
      have "jmin (configs ! i) \<le> jmax (configs ! i)" using assms(3) i by simp
      moreover have "i < length (fst st)" using True that assms(2) by (simp add: withinOrKept_def)
      ultimately show ?thesis
        using limit_clamp_bounds [of "jmin (configs ! i)" "jmax (configs ! i)" x] True upd by simp
    qed
  qed
  then show ?thesis using len by (simp add: withinOrKept_def)
qed


lemma distanceTo_self: "distanceTo p p = 0"
  by (simp add: distanceTo_def)

text \<open>
  Claim C4.  If the tip that \<^verbatim>\<open>computeFK\<close> gives for the initial angles is less than
  0.01 away from the target, \<^verbatim>\<open>solveIK\<close> returns the initial angles unchanged; with
  the target set to that tip itself, \<^verbatim>\<open>solveIK\<close> is the identity on the angles.
\<close>

theorem solveIK_early_exit:
  "(distanceTo (computeFK currentAngles dims ! 7) targetPos < 0.01
      \<longrightarrow> solveIK targetPos currentAngles dims configs = Inr currentAngles)
   \<and> solveIK (computeFK currentAngles dims ! 7) currentAngles dims configs = Inr currentAngles"
proof -
  have it: "0 < maxIterations" by (simp add: maxIterations_def)
  have "solveIK targetPos currentAngles dims configs = Inr currentAngles"
    if "distanceTo (computeFK currentAngles dims ! 7) targetPos < 0.01"
    unfolding solveIK_def using iterLoop_unfold_exit(1) [OF it] that by (simp add: threshold_def)
  moreover have "solveIK (computeFK currentAngles dims ! 7) currentAngles dims configs
      = Inr currentAngles"
    unfolding solveIK_def
    by (rule iterLoop_unfold_exit(1) [OF it]) (simp add: distanceTo_self threshold_def)
  ultimately show ?thesis by blast
qed

text \<open>The zero pose with a target 0.005 beyond the tip \<open>(0, 0.5, 3)\<close>.\<close>

theorem solveIK_early_exit_witness:
  "distanceTo (computeFK [0, 0, 0, 0, 0, 0, 0] DEFAULT_DIMENSIONS ! 7) (Vector3 0 (1 / 2) (3 + 1 / 200))
      = 1 / 200
   \<and> solveIK (Vector3 0 (1 / 2) (3 + 1 / 200)) [0, 0, 0, 0, 0, 0, 0] DEFAULT_DIMENSIONS DEFAULT_JOINTS
      = Inr [0, 0, 0, 0, 0, 0, 0]"
proof -
  have "sqrt (1 / 40000) = 1 / 200"
    by (rule real_sqrt_unique) (simp_all add: power2_eq_square)
  then have d: "distanceTo (computeFK [0, 0, 0, 0, 0, 0, 0] DEFAULT_DIMENSIONS ! 7)
      (Vector3 0 (1 / 2) (3 + 1 / 200)) = 1 / 200"
    by (simp add: zero_pose_tip distanceTo_def)
  then show ?thesis
    using solveIK_early_exit [of "[0, 0, 0, 0, 0, 0, 0]" DEFAULT_DIMENSIONS "Vector3 0 (1 / 2) (3 + 1 / 200)"
        DEFAULT_JOINTS]
    by simp
qed

text \<open>
  Claim C8.  For seven angles and seven joint configurations \<^verbatim>\<open>solveIK\<close> returns a
  vector whose entry at index 6, the wrist roll, is the input's entry: the backward pass
  writes the indices 5 down to 0 only.
\<close>

theorem solveIK_keeps_roll:
  assumes "length currentAngles = 7" "length configs = 7"
  shows "\<exists>r. solveIK targetPos currentAngles dims configs = Inr r \<and> r ! 6 = currentAngles ! 6"
proof -
  have six: "6 \<le> length configs" using assms(2) by simp
  obtain r where r: "iterLoop targetPos dims configs 0 currentAngles = Inr r"
    using iterLoop_total [OF six] by blast
  have "r ! 6 = currentAngles ! 6
      \<and> (\<forall>e \<in> set (iterTrace targetPos dims configs 0 currentAngles).
            snd (snd e) ! 6 = currentAngles ! 6)"
  proof (rule iterLoop_invariant [where Q = "\<lambda>v. v ! 6 = currentAngles ! 6", OF _ _ r])
    show "currentAngles ! 6 = currentAngles ! 6" ..
  next
    fix ps j s s'
    assume "0 \<le> j" "j \<le> 5" "fst s ! 6 = currentAngles ! 6"
      "ikJoint targetPos dims configs ps (nat j) s = Inr s'"
    then show "fst s' ! 6 = currentAngles ! 6"
      using ikJoint_other [of targetPos dims configs ps "nat j" s s' 6] by simp
  qed
  then show ?thesis using r by (simp add: solveIK_def)
qed

text \<open>The rest pose with a roll of 1 and the target \<open>(1, 1, 1)\<close>.\<close>

theorem solveIK_keeps_roll_witness:
  "\<exists>r. solveIK (Vector3 1 1 1) [0, 0, 0, 0, 0, pi / 4, 1] DEFAULT_DIMENSIONS DEFAULT_JOINTS = Inr r
      \<and> r ! 6 = 1"
  using solveIK_keeps_roll [of "[0, 0, 0, 0, 0, pi / 4, 1]" DEFAULT_JOINTS "Vector3 1 1 1" DEFAULT_DIMENSIONS]
  by (simp add: DEFAULT_JOINTS_def)

text \<open>
  Claim C7.  For seven angles and seven joint configurations, any target and any lengths,
  \<^verbatim>\<open>solveIK\<close> returns an angle vector of length 7 and no error.  Its run consists of
  \<open>n \<le> 5\<close> outer iterations, numbered from 0, each of which executes the body of the
  backward pass for the joints 5, 4, 3, 2, 1, 0 in this order; the vector returned is the
  last working copy.  That the loops end is part of the definitions of \<open>sweepLoop\<close> and
  \<open>iterLoop\<close>, whose termination is proved there.
\<close>

theorem solveIK_terminates:
  assumes "length currentAngles = 7" "length configs = 7"
  shows "\<exists>r n. solveIK targetPos currentAngles dims configs = Inr r
      \<and> length r = 7
      \<and> n \<le> 5
      \<and> map (\<lambda>e. (fst e, fst (snd e))) (solveIKTrace targetPos currentAngles dims configs)
           = concat (map (\<lambda>iter. map (Pair iter) [5, 4, 3, 2, 1, 0]) [0..<n])
      \<and> r = last (currentAngles
                  # map (\<lambda>e. snd (snd e)) (solveIKTrace targetPos currentAngles dims configs))"
proof -
  have six: "6 \<le> length configs" using assms(2) by simp
  obtain r where r: "iterLoop targetPos dims configs 0 currentAngles = Inr r"
    using iterLoop_total [OF six] by blast
  have "length r = 7
      \<and> (\<forall>e \<in> set (iterTrace targetPos dims configs 0 currentAngles). length (snd (snd e)) = 7)"
  proof (rule iterLoop_invariant [where Q = "\<lambda>v. length v = 7", OF _ _ r])
    show "length currentAngles = 7" by (rule assms(1))
  next
    fix ps j s s'
    assume "length (fst s) = 7" "ikJoint targetPos dims configs ps (nat j) s = Inr s'"
    then show "length (fst s') = 7" using ikJoint_length by simp
  qed
  then have len: "length r = 7" by simp
  obtain n where n: "n = 0 \<or> 0 + n \<le> maxIterations"
    "map (\<lambda>e. (fst e, fst (snd e))) (iterTrace targetPos dims configs 0 currentAngles)
         = concat (map (\<lambda>it. map (Pair it) (rev [0..<6])) [0..<0 + n])"
    using iterTrace_shape [OF six] by blast
  have rev6: "rev [0..<6] = [5, 4, 3, 2, 1, 0::nat]" by (simp add: upt_rec)
  have n5: "n \<le> 5" using n(1) by (auto simp: maxIterations_def)
  have shape: "map (\<lambda>e. (fst e, fst (snd e))) (solveIKTrace targetPos currentAngles dims configs)
           = concat (map (\<lambda>iter. map (Pair iter) [5, 4, 3, 2, 1, 0]) [0..<n])"
    using n(2) unfolding rev6 solveIKTrace_def by simp
  have last: "r = last (currentAngles
                  # map (\<lambda>e. snd (snd e)) (solveIKTrace targetPos currentAngles dims configs))"
    using iterTrace_last [OF r] unfolding solveIKTrace_def .
  have "solveIK targetPos currentAngles dims configs = Inr r" using r by (simp add: solveIK_def)
  then show ?thesis using len n5 shape last by blast
qed

text \<open>The rest pose and the target \<open>(1, 1, 1)\<close>.\<close>

theorem solveIK_terminates_witness:
  "\<exists>r n. solveIK (Vector3 1 1 1) [0, 0, 0, 0, 0, pi / 4, 0] DEFAULT_DIMENSIONS DEFAULT_JOINTS = Inr r
      \<and> length r = 7 \<and> n \<le> 5
      \<and> map (\<lambda>e. (fst e, fst (snd e)))
          (solveIKTrace (Vector3 1 1 1) [0, 0, 0, 0, 0, pi / 4, 0] DEFAULT_DIMENSIONS DEFAULT_JOINTS)
         = concat (map (\<lambda>iter. map (Pair iter) [5, 4, 3, 2, 1, 0]) [0..<n])"
proof -
  have a: "length [0, 0, 0, 0, 0, pi / 4, 0] = 7" by simp
  have c: "length DEFAULT_JOINTS = 7" by (simp add: DEFAULT_JOINTS_def)
  from solveIK_terminates [OF a c, of "Vector3 1 1 1" DEFAULT_DIMENSIONS] show ?thesis by blast
qed

text \<open>
  Claim C2, as amended.  For seven angles and seven limits with \<open>min \<le> max\<close> each, the
  vector \<^verbatim>\<open>solveIK\<close> returns and every working copy during the backward passes have
  each angle within its \<open>[min, max]\<close> or equal to the initial angle of that joint.  So when
  the initial vector lies within the limits, the result and every intermediate vector do.
\<close>

theorem solveIK_limits:
  assumes "length currentAngles = 7" "length configs = 7" "\<forall>j \<in> set configs. jmin j \<le> jmax j"
  shows "(\<exists>r. solveIK targetPos currentAngles dims configs = Inr r
            \<and> withinOrKept configs currentAngles r
            \<and> (withinLimits configs currentAngles \<longrightarrow> withinLimits configs r))
       \<and> (\<forall>e \<in> set (solveIKTrace targetPos currentAngles dims configs).
            withinOrKept configs currentAngles (snd (snd e))
            \<and> (withinLimits configs currentAngles \<longrightarrow> withinLimits configs (snd (snd e))))"
proof -
  have six: "6 \<le> length configs" using assms(2) by simp
  obtain r where r: "iterLoop targetPos dims configs 0 currentAngles = Inr r"
    using iterLoop_total [OF six] by blast
  have inv: "withinOrKept configs currentAngles r
      \<and> (\<forall>e \<in> set (iterTrace targetPos dims configs 0 currentAngles).
            withinOrKept configs currentAngles (snd (snd e)))"
  proof (rule iterLoop_invariant [where Q = "withinOrKept configs currentAngles", OF _ _ r])
    show "withinOrKept configs currentAngles currentAngles"
      using assms(1) by (simp add: withinOrKept_def)
  next
    fix ps j s s'
    assume "withinOrKept configs currentAngles (fst s)"
      "ikJoint targetPos dims configs ps (nat j) s = Inr s'"
    then show "withinOrKept configs currentAngles (fst s')"
      using ikJoint_withinOrKept assms(3) by blast
  qed
  have imp: "withinLimits configs v"
    if v: "withinOrKept configs currentAngles v" and a: "withinLimits configs currentAngles" for v
    unfolding withinLimits_def
  proof (intro allI impI)
    fix k :: nat assume k: "k < 7"
    have "(jmin (configs ! k) \<le> v ! k \<and> v ! k \<le> jmax (configs ! k)) \<or> v ! k = currentAngles ! k"
      using v k by (simp add: withinOrKept_def)
    moreover have "jmin (configs ! k) \<le> currentAngles ! k \<and> currentAngles ! k \<le> jmax (configs ! k)"
      using a k by (simp add: withinLimits_def)
    ultimately show "jmin (configs ! k) \<le> v ! k \<and> v ! k \<le> jmax (configs ! k)" by auto
  qed
  have res: "solveIK targetPos currentAngles dims configs = Inr r" using r by (simp add: solveIK_def)
  have one: "\<exists>r. solveIK targetPos currentAngles dims configs = Inr r
            \<and> withinOrKept configs currentAngles r
            \<and> (withinLimits configs currentAngles \<longrightarrow> withinLimits configs r)"
    using res inv imp by blast
  have two: "\<forall>e \<in> set (solveIKTrace targetPos currentAngles dims configs).
            withinOrKept configs currentAngles (snd (snd e))
            \<and> (withinLimits configs currentAngles \<longrightarrow> withinLimits configs (snd (snd e)))"
    unfolding solveIKTrace_def using inv imp by blast
  show ?thesis using one two by (rule conjI)
qed

text \<open>
  All seven joints frozen at 0 (\<open>min = max = 0\<close>) and the arm at the zero pose: whatever
  the solver does for the target \<open>(1, 1, 1)\<close>, the angles it returns are within the limits.
\<close>

theorem solveIK_limits_witness:
  "\<exists>r. solveIK (Vector3 1 1 1) (replicate 7 0) DEFAULT_DIMENSIONS
          (map (\<lambda>j. j\<lparr>jmin := 0, jmax := 0\<rparr>) DEFAULT_JOINTS) = Inr r
      \<and> withinLimits (map (\<lambda>j. j\<lparr>jmin := 0, jmax := 0\<rparr>) DEFAULT_JOINTS) r"
proof -
  let ?cfg = "map (\<lambda>j. j\<lparr>jmin := 0, jmax := 0\<rparr>) DEFAULT_JOINTS"
  have a: "length (replicate 7 (0::real)) = 7" by simp
  have c: "length ?cfg = 7" by (simp add: DEFAULT_JOINTS_def)
  have lim: "\<forall>j \<in> set ?cfg. jmin j \<le> jmax j" by simp
  have "length DEFAULT_JOINTS = 7" by (simp add: DEFAULT_JOINTS_def)
  then have init: "withinLimits ?cfg (replicate 7 0)" by (simp add: withinLimits_def)
  from solveIK_limits [OF a c lim, of "Vector3 1 1 1" DEFAULT_DIMENSIONS] init
  show ?thesis by blast
qed

text \<open>
  Claim C2 as stated, for every initial vector, fails: an angle is clamped only when the
  backward pass updates it.  From the zero pose with a roll of 9 and the target at the
  tip, the solver returns the input, whose roll exceeds the default maximum \<open>2 pi\<close>.
\<close>

theorem solveIK_returns_angle_outside_limits:
  "length DEFAULT_JOINTS = 7
   \<and> list_all (\<lambda>j. jmin j \<le> jmax j) DEFAULT_JOINTS
   \<and> solveIK (Vector3 0 (1 / 2) 3) [0, 0, 0, 0, 0, 0, 9] DEFAULT_DIMENSIONS DEFAULT_JOINTS
      = Inr [0, 0, 0, 0, 0, 0, 9]
   \<and> \<not> [0, 0, 0, 0, 0, 0, 9] ! 6 \<le> jmax (DEFAULT_JOINTS ! 6)"
proof -
  have "solveIK (computeFK [0, 0, 0, 0, 0, 0, 9] DEFAULT_DIMENSIONS ! 7) [0, 0, 0, 0, 0, 0, 9]
           DEFAULT_DIMENSIONS DEFAULT_JOINTS = Inr [0, 0, 0, 0, 0, 0, 9]"
    unfolding solveIK_def
    by (rule iterLoop_unfold_exit(1)) (simp_all add: maxIterations_def distanceTo_self threshold_def)
  moreover have "\<not> (9::real) \<le> pi * 2" using pi_less_4 by simp
  moreover have "list_all (\<lambda>j. jmin j \<le> jmax j) DEFAULT_JOINTS"
    using pi_ge_zero by (simp add: DEFAULT_JOINTS_def)
  ultimately show ?thesis by (simp add: zero_pose_tip DEFAULT_JOINTS_def)
qed

end
